(* ===== verification/Prelude.thy ===== *)
theory Prelude
  imports Main "HOL-Library.Word" "HOL-Library.Monad_Syntax"
begin

text \<open>
  Shared vocabulary of the development. JavaScript strings are sequences of UTF-16
  code units (\<open>String.prototype.length\<close> counts code units), so a JS string is a
  list of \<open>16 word\<close>; \<open>js\<close> writes an ASCII literal as such a list. The named
  collections gather the characteristic equations of the validator and of the date
  arithmetic, so that component proofs say \<open>simp add: zod_simps\<close>. The generic
  lemmas on association lists, option and lists are the ones the components share.
\<close>

type_synonym jsstr = "16 word list"

abbreviation js :: "string \<Rightarrow> jsstr" where
  "js s \<equiv> map of_char s"

named_theorems zod_simps "characteristic equations of the schema interpreter"
named_theorems date_simps "equations of the ECMAScript date arithmetic"
named_theorems accept_iff "what a schema accepts, combinator by combinator"

subsection \<open>Association lists\<close>

lemma map_of_map_snd:
  "map_of (map (\<lambda>(k, v). (k, f k v)) kvs) k = map_option (f k) (map_of kvs k)"
  by (induction kvs) auto

lemma map_of_filter_out:
  "distinct (map fst xs) \<Longrightarrow> (k, z) \<in> set xs \<Longrightarrow> \<not> P k z \<Longrightarrow>
   map_of (filter (case_prod P) xs) k = None"
proof (induction xs)
  case (Cons x xs)
  then show ?case
    by (cases x) (auto simp: map_of_eq_None_iff image_iff dest: eq_key_imp_eq_value)
qed simp

subsection \<open>Lists of results\<close>

lemma list_all_map_iff: "list_all P (map f xs) \<longleftrightarrow> (\<forall>x \<in> set xs. P (f x))"
  by (simp add: list_all_iff)

lemma enumerate_set_snd: "snd ` set (enumerate n xs) = set xs"
  by (induction xs arbitrary: n) auto

lemma enumerate_mem_snd: "(i, x) \<in> set (enumerate n xs) \<Longrightarrow> x \<in> set xs"
  using enumerate_set_snd by force

lemma zip_map_same: "zip (map f xs) (map g xs) = map (\<lambda>x. (f x, g x)) xs"
  by (induction xs) auto

lemma mem_enumerate_nth: "i < length xs \<Longrightarrow> (i, xs ! i) \<in> set (enumerate 0 xs)"
  by (metis add_0 length_enumerate nth_enumerate_eq nth_mem)

lemma ok_result: "r \<in> set rs \<Longrightarrow> \<forall>r \<in> set rs. fst r = [] \<Longrightarrow> \<forall>r \<in> set rs. snd r \<noteq> None \<Longrightarrow>
   r = ([], Some (the (snd r)))"
  by (cases r) auto

end
