(* ===== verification/JsValue.thy ===== *)
theory JsValue
  imports Prelude
begin

text \<open>
  The JavaScript values a front-matter block parses to, as the content loader hands
  them to a collection's schema: \<open>undefined\<close> (the value of an absent key),
  \<open>null\<close>, booleans, numbers, strings, \<open>Date\<close> objects (YAML timestamps are
  parsed to dates; the time value is \<open>None\<close> for an invalid date), arrays and plain
  objects. Objects are association lists in source order. Numbers are integers: the
  fractional, infinite and NaN numbers of IEEE doubles are not modelled.
\<close>

datatype jval =
    JUndefined
  | JNull
  | JBool bool
  | JNum int
  | JStr jsstr
  | JDate "int option"
  | JArr "jval list"
  | JObj "(jsstr \<times> jval) list"

text \<open>Property access \<open>o[k]\<close>: an absent key reads as \<open>undefined\<close>.\<close>

definition get_prop :: "(jsstr \<times> jval) list \<Rightarrow> jsstr \<Rightarrow> jval" where
  "get_prop kvs k = (case map_of kvs k of None \<Rightarrow> JUndefined | Some v \<Rightarrow> v)"

text \<open>The \<open>in\<close> operator, \<open>k in o\<close>.\<close>

definition has_prop :: "(jsstr \<times> jval) list \<Rightarrow> jsstr \<Rightarrow> bool" where
  "has_prop kvs k \<longleftrightarrow> k \<in> fst ` set kvs"

text \<open>
  A value produced by a YAML or JSON parser has pairwise distinct keys in every
  object (a duplicated mapping key is a parse error) and never holds \<open>undefined\<close>.
\<close>

fun wf_jval :: "jval \<Rightarrow> bool" where
  "wf_jval JUndefined = False"
| "wf_jval (JArr xs) = (\<forall>x \<in> set xs. wf_jval x)"
| "wf_jval (JObj kvs) = (distinct (map fst kvs) \<and> (\<forall>(k, v) \<in> set kvs. wf_jval v))"
| "wf_jval _ = True"

lemma get_prop_absent [simp]: "\<not> has_prop kvs k \<Longrightarrow> get_prop kvs k = JUndefined"
  by (simp add: get_prop_def has_prop_def map_of_eq_None_iff [symmetric])

lemma get_prop_Cons [simp]:
  "get_prop ((k', v) # kvs) k = (if k' = k then v else get_prop kvs k)"
  by (simp add: get_prop_def)

lemma get_prop_Nil [simp]: "get_prop [] k = JUndefined"
  by (simp add: get_prop_def)

lemma has_prop_Cons [simp]: "has_prop ((k', v) # kvs) k \<longleftrightarrow> k' = k \<or> has_prop kvs k"
  by (auto simp: has_prop_def)

lemma has_prop_Nil [simp]: "\<not> has_prop [] k"
  by (simp add: has_prop_def)

lemma get_prop_mem: "has_prop kvs k \<Longrightarrow> (k, get_prop kvs k) \<in> set kvs"
  by (cases "map_of kvs k") (auto simp: get_prop_def has_prop_def map_of_eq_None_iff dest: map_of_SomeD)

lemma wf_get_prop: "wf_jval (JObj kvs) \<Longrightarrow> has_prop kvs k \<Longrightarrow> wf_jval (get_prop kvs k)"
  using get_prop_mem by fastforce

lemma get_prop_defined: "get_prop kvs k \<noteq> JUndefined \<Longrightarrow> has_prop kvs k"
  using get_prop_absent by blast

lemma has_prop_append: "has_prop (xs @ ys) k \<longleftrightarrow> has_prop xs k \<or> has_prop ys k"
  by (auto simp: has_prop_def)

lemma get_prop_append_left:
  "\<not> has_prop ys k \<Longrightarrow> get_prop (xs @ ys) k = get_prop xs k"
  by (auto simp: get_prop_def has_prop_def map_add_def map_of_eq_None_iff [symmetric] split: option.split)

text \<open>Deleting a property (\<open>delete o[k]\<close>).\<close>

lemma get_prop_delete:
  "get_prop (filter (\<lambda>(k', _). k' \<noteq> k) kvs) k'' = (if k'' = k then JUndefined else get_prop kvs k'')"
  by (induction kvs) auto

lemma has_prop_delete:
  "has_prop (filter (\<lambda>(k', _). k' \<noteq> k) kvs) k'' \<longleftrightarrow> k'' \<noteq> k \<and> has_prop kvs k''"
  by (induction kvs) auto

end
