(* ===== verification/EsDate.thy ===== *)
theory EsDate
  imports JsValue
begin

text \<open>
  What \<open>z.coerce.date()\<close> does with a front-matter value: zod's coercion is
  \<open>new Date(input)\<close>, so this theory models the ECMAScript \<open>Date\<close> constructor
  with one argument (ECMA-262, 21.4.2.1) and what it calls: \<open>ToPrimitive\<close> and
  \<open>ToString\<close> of values, \<open>Date.parse\<close> on the Date Time String Format
  (21.4.1.32), \<open>MakeDay\<close>, \<open>MakeTime\<close>, \<open>MakeDate\<close>, \<open>TimeClip\<close> and the
  local-time conversion. A time value is an \<open>int\<close> of milliseconds since the epoch,
  \<open>None\<close> standing for NaN (an Invalid Date). The local time zone is a fixed
  offset \<open>tza\<close> in milliseconds (daylight-saving changes are not modelled). Strings
  outside the ISO format go to the engine's own parser, a parameter of the model: the
  standard leaves them to implementation-specific heuristics.
\<close>

subsection \<open>Time arithmetic (21.4.1)\<close>

definition ms_per_day :: int where
  "ms_per_day = 86400000"

definition day_of :: "int \<Rightarrow> int" where
  "day_of t = t div ms_per_day"

definition days_in_year :: "int \<Rightarrow> int" where
  "days_in_year y =
     (if y mod 4 \<noteq> 0 then 365 else if y mod 100 \<noteq> 0 then 366
      else if y mod 400 \<noteq> 0 then 365 else 366)"

definition day_from_year :: "int \<Rightarrow> int" where
  "day_from_year y =
     365 * (y - 1970) + (y - 1969) div 4 - (y - 1901) div 100 + (y - 1601) div 400"

text \<open>Days of year \<open>y\<close> before its month \<open>m\<close> (0-based), the table of MonthFromTime.\<close>

definition month_start :: "int \<Rightarrow> int \<Rightarrow> int" where
  "month_start y m =
     [0, 31, 59, 90, 120, 151, 181, 212, 243, 273, 304, 334] ! nat m
     + (if 2 \<le> m \<and> days_in_year y = 366 then 1 else 0)"

definition make_day :: "int \<Rightarrow> int \<Rightarrow> int \<Rightarrow> int" where
  "make_day year month date =
     (let ym = year + month div 12; mn = month mod 12
      in day_from_year ym + month_start ym mn + date - 1)"

definition make_time :: "int \<Rightarrow> int \<Rightarrow> int \<Rightarrow> int \<Rightarrow> int" where
  "make_time h m s ms = h * 3600000 + m * 60000 + s * 1000 + ms"

definition make_date :: "int \<Rightarrow> int \<Rightarrow> int" where
  "make_date d t = d * ms_per_day + t"

definition time_clip :: "int \<Rightarrow> int option" where
  "time_clip t = (if \<bar>t\<bar> > 8640000000000000 then None else Some t)"

subsection \<open>The Date Time String Format (21.4.1.32)\<close>

text \<open>
  The fields of a string in the format
  \<open>YYYY[-MM[-DD]][THH:mm[:ss[.sss]][Z|\<plusminus>HH:mm]]\<close>, with the expanded years
  \<open>\<plusminus>YYYYYY\<close>. \<open>iso_offset\<close> is the UTC offset in minutes when one is written;
  \<open>iso_timed\<close> tells a date-time form from a date-only form, which the standard
  reads as UTC while a date-time form without offset is local time.
\<close>

record iso_fields =
  iso_year :: int
  iso_month :: int
  iso_day :: int
  iso_timed :: bool
  iso_hour :: int
  iso_minute :: int
  iso_second :: int
  iso_ms :: int
  iso_offset :: "int option"

definition is_digit :: "16 word \<Rightarrow> bool" where
  "is_digit c \<longleftrightarrow> 48 \<le> c \<and> c \<le> 57"

definition digits_value :: "jsstr \<Rightarrow> int" where
  "digits_value ds = foldl (\<lambda>acc c. 10 * acc + (uint c - 48)) 0 ds"

text \<open>Exactly \<open>n\<close> decimal digits.\<close>

definition read_digits :: "nat \<Rightarrow> jsstr \<Rightarrow> (int \<times> jsstr) option" where
  "read_digits n s =
     (let ds = take n s
      in if length ds = n \<and> list_all is_digit ds then Some (digits_value ds, drop n s)
         else None)"

text \<open>\<open>YYYY\<close>, or a sign and six digits; \<open>-000000\<close> is not a valid year.\<close>

definition parse_year :: "jsstr \<Rightarrow> (int \<times> jsstr) option" where
  "parse_year s =
     (case s of
        [] \<Rightarrow> None
      | c # r \<Rightarrow>
          if c = 43 then read_digits 6 r
          else if c = 45 then
            (case read_digits 6 r of
               None \<Rightarrow> None
             | Some (y, r') \<Rightarrow> if y = 0 then None else Some (- y, r'))
          else read_digits 4 s)"

text \<open>A two-digit field in \<open>[lo, hi]\<close> after the separator \<open>sep\<close>.\<close>

definition field2 :: "16 word \<Rightarrow> int \<Rightarrow> int \<Rightarrow> jsstr \<Rightarrow> (int \<times> jsstr) option" where
  "field2 sep lo hi s =
     (case s of
        c # r \<Rightarrow>
          if c = sep then
            (case read_digits 2 r of
               Some (v, r') \<Rightarrow> if lo \<le> v \<and> v \<le> hi then Some (v, r') else None
             | None \<Rightarrow> None)
          else None
      | [] \<Rightarrow> None)"

text \<open>An optional field: absent when the next unit is not its separator.\<close>

definition opt_field :: "16 word \<Rightarrow> int \<Rightarrow> int \<Rightarrow> int \<Rightarrow> jsstr \<Rightarrow> (int \<times> jsstr) option" where
  "opt_field sep lo hi dflt s =
     (case s of
        c # _ \<Rightarrow> if c = sep then field2 sep lo hi s else Some (dflt, s)
      | [] \<Rightarrow> Some (dflt, s))"

definition parse_ms :: "jsstr \<Rightarrow> (int \<times> jsstr) option" where
  "parse_ms s =
     (case s of
        c # r \<Rightarrow> if c = 46 then read_digits 3 r else Some (0, s)
      | [] \<Rightarrow> Some (0, s))"

text \<open>\<open>Z\<close>, \<open>+HH:mm\<close> or \<open>-HH:mm\<close> (hours 00 to 23), and nothing after it.\<close>

definition parse_offset :: "jsstr \<Rightarrow> int option option" where
  "parse_offset s =
     (case s of
        [] \<Rightarrow> Some None
      | c # r \<Rightarrow>
          if c = 90 then (if r = [] then Some (Some 0) else None)
          else if c = 43 \<or> c = 45 then
            (case read_digits 2 r of
               None \<Rightarrow> None
             | Some (h, r1) \<Rightarrow>
                 (case field2 58 0 59 r1 of
                    Some (m, []) \<Rightarrow>
                      if h \<le> 23 then Some (Some ((if c = 43 then 1 else -1) * (60 * h + m)))
                      else None
                  | _ \<Rightarrow> None))
          else None)"

definition parse_time :: "iso_fields \<Rightarrow> jsstr \<Rightarrow> iso_fields option" where
  "parse_time f s = do {
     (h, r1) \<leftarrow> read_digits 2 s;
     (mi, r2) \<leftarrow> field2 58 0 59 r1;
     (sec, r3) \<leftarrow> opt_field 58 0 59 0 r2;
     (ms, r4) \<leftarrow> (if r3 \<noteq> r2 then parse_ms r3 else Some (0, r3));
     off \<leftarrow> parse_offset r4;
     if h < 24 \<or> (h = 24 \<and> mi = 0 \<and> sec = 0 \<and> ms = 0)
     then Some (f\<lparr>iso_timed := True, iso_hour := h, iso_minute := mi, iso_second := sec,
                   iso_ms := ms, iso_offset := off\<rparr>)
     else None
   }"

definition parse_iso :: "jsstr \<Rightarrow> iso_fields option" where
  "parse_iso s = do {
     (y, r1) \<leftarrow> parse_year s;
     (m, r2) \<leftarrow> opt_field 45 1 12 1 r1;
     (d, r3) \<leftarrow> (if r2 \<noteq> r1 then opt_field 45 1 31 1 r2 else Some (1, r2));
     let f = \<lparr>iso_year = y, iso_month = m, iso_day = d, iso_timed = False, iso_hour = 0,
              iso_minute = 0, iso_second = 0, iso_ms = 0, iso_offset = None\<rparr>;
     (case r3 of
        [] \<Rightarrow> Some f
      | c # r \<Rightarrow> if c = 84 then parse_time f r else None)
   }"

text \<open>
  The time value a parsed string denotes: \<open>MakeDate(MakeDay, MakeTime)\<close>, shifted by
  the written offset, or by the local offset for a date-time form without one, then
  clipped.
\<close>

definition iso_time_value :: "int \<Rightarrow> iso_fields \<Rightarrow> int option" where
  "iso_time_value tza f =
     (let t = make_date (make_day (iso_year f) (iso_month f - 1) (iso_day f))
                        (make_time (iso_hour f) (iso_minute f) (iso_second f) (iso_ms f))
      in time_clip
           (case iso_offset f of
              Some off \<Rightarrow> t - off * 60000
            | None \<Rightarrow> if iso_timed f then t - tza else t))"

text \<open>
  \<open>Date.parse\<close> (21.4.3.2): a string in the Date Time String Format is read by the
  format's rules; for any other string the standard lets the engine "fall back to any
  implementation-specific heuristics or implementation-specific date formats". That
  fallback is the parameter \<open>fb\<close> (V8's legacy parser in Node, which accepts
  \<open>2024/03/01\<close> or \<open>March 1, 2024\<close>), so that nothing is claimed of strings
  outside the format beyond what the engine decides.
\<close>

definition date_parse :: "int \<Rightarrow> (jsstr \<Rightarrow> int option) \<Rightarrow> jsstr \<Rightarrow> int option" where
  "date_parse tza fb s = (case parse_iso s of Some f \<Rightarrow> iso_time_value tza f | None \<Rightarrow> fb s)"

subsection \<open>Calendar fields of a time value\<close>

text \<open>
  Year, month (1 to 12) and day of month of a day number counted from 1970-01-01,
  computed in closed form over 400-year eras; the standard's \<open>YearFromTime\<close>,
  \<open>MonthFromTime\<close> and \<open>DateFromTime\<close> give the same fields.
\<close>

definition civil_from_days :: "int \<Rightarrow> int \<times> int \<times> int" where
  "civil_from_days d =
     (let z = d + 719468; era = z div 146097; doe = z mod 146097;
          yoe = (doe - doe div 1460 + doe div 36524 - doe div 146096) div 365;
          doy = doe - (365 * yoe + yoe div 4 - yoe div 100);
          mp = (5 * doy + 2) div 153;
          dd = doy - (153 * mp + 2) div 5 + 1;
          mm = (if mp < 10 then mp + 3 else mp - 9)
      in (yoe + era * 400 + (if mm \<le> 2 then 1 else 0), mm, dd))"

definition week_day :: "int \<Rightarrow> int" where
  "week_day t = (day_of t + 4) mod 7"

subsection \<open>ToString\<close>

fun nat_to_jsstr :: "nat \<Rightarrow> jsstr" where
  "nat_to_jsstr n =
     (if n < 10 then [of_nat (48 + n)] else nat_to_jsstr (n div 10) @ [of_nat (48 + n mod 10)])"

definition int_to_jsstr :: "int \<Rightarrow> jsstr" where
  "int_to_jsstr i = (if i < 0 then js ''-'' @ nat_to_jsstr (nat (- i)) else nat_to_jsstr (nat i))"

text \<open>\<open>ToZeroPaddedDecimalString(n, k)\<close> for \<open>n \<ge> 0\<close>.\<close>

definition pad_dec :: "nat \<Rightarrow> int \<Rightarrow> jsstr" where
  "pad_dec k n = (let s = nat_to_jsstr (nat n) in replicate (k - length s) 48 @ s)"

definition week_day_name :: "int \<Rightarrow> jsstr" where
  "week_day_name w = js ([''Sun'', ''Mon'', ''Tue'', ''Wed'', ''Thu'', ''Fri'', ''Sat''] ! nat w)"

definition month_name :: "int \<Rightarrow> jsstr" where
  "month_name m = js ([''Jan'', ''Feb'', ''Mar'', ''Apr'', ''May'', ''Jun'', ''Jul'', ''Aug'',
                       ''Sep'', ''Oct'', ''Nov'', ''Dec''] ! nat (m - 1))"

text \<open>
  \<open>Date.prototype.toString\<close> (\<open>ToDateString\<close>, 21.4.4.41.4): local date, local
  time and the offset; the time-zone name is optional in the standard and left out.
\<close>

definition date_to_string :: "int \<Rightarrow> int option \<Rightarrow> jsstr" where
  "date_to_string tza tv =
     (case tv of
        None \<Rightarrow> js ''Invalid Date''
      | Some u \<Rightarrow>
          (let t = u + tza; (y, m, d) = civil_from_days (day_of t); w = t mod ms_per_day;
               off = \<bar>tza\<bar>
           in week_day_name (week_day t) @ js '' '' @ month_name m @ js '' '' @ pad_dec 2 d
              @ js '' '' @ (if y < 0 then js ''-'' else []) @ pad_dec 4 \<bar>y\<bar>
              @ js '' '' @ pad_dec 2 (w div 3600000) @ js '':'' @ pad_dec 2 (w div 60000 mod 60)
              @ js '':'' @ pad_dec 2 (w div 1000 mod 60) @ js '' GMT''
              @ (if 0 \<le> tza then js ''+'' else js ''-'')
              @ pad_dec 2 (off div 3600000) @ pad_dec 2 (off div 60000 mod 60)))"

text \<open>
  \<open>ToString\<close> of a value, as \<open>ToPrimitive\<close> with hint default produces it for an
  object: an array joins its elements with commas (\<open>undefined\<close> and \<open>null\<close>
  elements as the empty string), a plain object is \<open>[object Object]\<close>.
\<close>

text \<open>\<open>Array.prototype.join\<close> with the default separator.\<close>

fun join_commas :: "jsstr list \<Rightarrow> jsstr" where
  "join_commas [] = []"
| "join_commas [s] = s"
| "join_commas (s # ss) = s @ js '','' @ join_commas ss"

fun to_string :: "int \<Rightarrow> jval \<Rightarrow> jsstr" where
  "to_string tza JUndefined = js ''undefined''"
| "to_string tza JNull = js ''null''"
| "to_string tza (JBool b) = (if b then js ''true'' else js ''false'')"
| "to_string tza (JNum n) = int_to_jsstr n"
| "to_string tza (JStr s) = s"
| "to_string tza (JDate tv) = date_to_string tza tv"
| "to_string tza (JArr xs) =
     join_commas (map (\<lambda>x. if x = JUndefined \<or> x = JNull then [] else to_string tza x) xs)"
| "to_string tza (JObj kvs) = js ''[object Object]''"

subsection \<open>The Date constructor with one argument (21.4.2.1)\<close>

text \<open>
  \<open>new Date(value)\<close>: a \<open>Date\<close> object gives its time value; otherwise
  \<open>ToPrimitive(value)\<close> is parsed when it is a string and converted by
  \<open>ToNumber\<close> otherwise (\<open>undefined\<close> is NaN, \<open>null\<close> is 0, booleans are 0
  and 1); the result is clipped.
\<close>

fun date_value :: "int \<Rightarrow> (jsstr \<Rightarrow> int option) \<Rightarrow> jval \<Rightarrow> int option" where
  "date_value tza fb (JDate tv) = Option.bind tv time_clip"
| "date_value tza fb JUndefined = None"
| "date_value tza fb JNull = time_clip 0"
| "date_value tza fb (JBool b) = time_clip (if b then 1 else 0)"
| "date_value tza fb (JNum n) = time_clip n"
| "date_value tza fb (JStr s) = Option.bind (date_parse tza fb s) time_clip"
| "date_value tza fb (JArr xs) = Option.bind (date_parse tza fb (to_string tza (JArr xs))) time_clip"
| "date_value tza fb (JObj kvs) = Option.bind (date_parse tza fb (to_string tza (JObj kvs))) time_clip"

lemmas date_arith_defs [date_simps] =
  ms_per_day_def day_of_def days_in_year_def day_from_year_def month_start_def
  make_day_def make_time_def make_date_def time_clip_def

lemmas iso_parse_defs =
  date_parse_def parse_iso_def parse_time_def parse_year_def read_digits_def is_digit_def
  digits_value_def opt_field_def field2_def parse_ms_def parse_offset_def iso_time_value_def

subsection \<open>Date-only strings\<close>

text \<open>
  A string \<open>YYYY-MM-DD\<close> with a month from 01 to 12 and a day from 01 to 31 is in the
  format, and \<open>new Date\<close> gives UTC midnight of \<open>MakeDay(YYYY, MM - 1, DD)\<close>
  whatever the local time zone and the engine's fallback parser; a day past the end of
  its month counts on into the next month, as \<open>MakeDay\<close> does. Four-digit years stay
  far inside the range of \<open>TimeClip\<close>.
\<close>

lemma read_digits_append:
  "length ds = n \<Longrightarrow> list_all is_digit ds \<Longrightarrow> read_digits n (ds @ r) = Some (digits_value ds, r)"
  by (simp add: read_digits_def)

lemma digits_value_bounds:
  "list_all is_digit ds \<Longrightarrow> 0 \<le> digits_value ds \<and> digits_value ds < 10 ^ length ds"
proof (induction ds rule: rev_induct)
  case (snoc c ds)
  have "uint c - 48 \<in> {0..9}" using snoc.prems
    by (simp add: is_digit_def word_le_def)
  with snoc show ?case by (simp add: digits_value_def)
qed (simp add: digits_value_def)

lemma parse_year_4:
  assumes "length ys = 4" and "list_all is_digit ys"
  shows "parse_year (ys @ r) = Some (digits_value ys, r)"
proof -
  obtain c cs where ys: "ys = c # cs" using assms(1) by (cases ys) auto
  have "c \<noteq> 43" "c \<noteq> 45" using assms(2) ys by (auto simp: is_digit_def)
  then show ?thesis using read_digits_append [OF assms] ys by (simp add: parse_year_def)
qed

lemma field2_digits:
  assumes "length ds = 2" and "list_all is_digit ds" and "lo \<le> digits_value ds" and "digits_value ds \<le> hi"
  shows "opt_field sep lo hi dflt (sep # ds @ r) = Some (digits_value ds, r)"
  using read_digits_append [OF assms(1,2)] assms(3,4) by (simp add: opt_field_def field2_def)

lemma parse_iso_date_only:
  assumes "length ys = 4" "length ms = 2" "length ds = 2" "list_all is_digit (ys @ ms @ ds)"
    "1 \<le> digits_value ms" "digits_value ms \<le> 12" "1 \<le> digits_value ds" "digits_value ds \<le> 31"
  shows "parse_iso (ys @ [45] @ ms @ [45] @ ds) =
           Some \<lparr>iso_year = digits_value ys, iso_month = digits_value ms, iso_day = digits_value ds,
                 iso_timed = False, iso_hour = 0, iso_minute = 0, iso_second = 0, iso_ms = 0,
                 iso_offset = None\<rparr>"
proof -
  have y: "parse_year (ys @ [45] @ ms @ [45] @ ds) = Some (digits_value ys, 45 # ms @ [45] @ ds)"
    using parse_year_4 [OF assms(1)] assms(4) by simp
  have m: "opt_field 45 1 12 1 (45 # ms @ [45] @ ds) = Some (digits_value ms, 45 # ds)"
    using field2_digits [OF assms(2)] assms(4-6) by simp
  have d: "opt_field 45 1 31 1 (45 # ds) = Some (digits_value ds, [])"
    using field2_digits [OF assms(3), of 1 31 45 1 "[]"] assms(4,7,8) by simp
  have ne: "45 # ds \<noteq> 45 # ms @ [45] @ ds" by (metis append_Cons append_eq_append_conv2 self_append_conv2 list.distinct(1) append_Nil)
  show ?thesis using y m d ne by (simp add: parse_iso_def)
qed

lemma int_div_bounds: "0 < (k::int) \<Longrightarrow> k * (a div k) \<le> a \<and> a < k * (a div k) + k"
  using mult_div_mod_eq [of k a] pos_mod_bound [of k a] pos_mod_sign [of k a] by linarith

lemma day_from_year_bounds:
  assumes "0 \<le> y" and "y < 10000"
  shows "-800000 \<le> day_from_year y \<and> day_from_year y \<le> 3000000"
proof -
  obtain a b c where a: "a = (y - 1969) div 4" and b: "b = (y - 1901) div 100" and c: "c = (y - 1601) div 400"
    by blast
  have "4 * a \<le> y - 1969 \<and> y - 1969 < 4 * a + 4" "100 * b \<le> y - 1901 \<and> y - 1901 < 100 * b + 100"
    "400 * c \<le> y - 1601 \<and> y - 1601 < 400 * c + 400"
    unfolding a b c by (rule int_div_bounds; simp)+
  then have "-800000 \<le> 365 * (y - 1970) + a - b + c \<and> 365 * (y - 1970) + a - b + c \<le> 3000000"
    using assms by (elim conjE) (intro conjI; simp add: algebra_simps)
  then show ?thesis unfolding day_from_year_def a b c .
qed

lemma month_start_bounds:
  assumes "0 \<le> m" and "m < 12"
  shows "0 \<le> month_start y m \<and> month_start y m \<le> 335"
proof -
  define t :: "int list" where "t = [0, 31, 59, 90, 120, 151, 181, 212, 243, 273, 304, 334]"
  have "t ! nat m \<in> set t" using assms by (intro nth_mem) (simp add: t_def)
  then have "0 \<le> t ! nat m \<and> t ! nat m \<le> 334" by (auto simp: t_def)
  moreover have "month_start y m = t ! nat m + (if 2 \<le> m \<and> days_in_year y = 366 then 1 else 0)"
    by (simp only: month_start_def t_def)
  ultimately show ?thesis by simp
qed

lemma make_day_date_only:
  assumes "0 \<le> y" "y < 10000" "1 \<le> m" "m \<le> 12" "1 \<le> d" "d \<le> 31"
  shows "\<bar>make_date (make_day y (m - 1) d) 0\<bar> \<le> 8640000000000000"
proof -
  have mk: "make_day y (m - 1) d = day_from_year y + month_start y (m - 1) + d - 1"
    using assms(3,4) by (simp add: make_day_def)
  have "-800000 \<le> make_day y (m - 1) d \<and> make_day y (m - 1) d \<le> 3000400"
    using mk day_from_year_bounds [OF assms(1,2)] month_start_bounds [of "m - 1" y] assms(3-6) by simp
  then show ?thesis by (simp add: make_date_def ms_per_day_def abs_le_iff)
qed

lemma date_value_date_only:
  assumes "length ys = 4" "length ms = 2" "length ds = 2" "list_all is_digit (ys @ ms @ ds)"
    "1 \<le> digits_value ms" "digits_value ms \<le> 12" "1 \<le> digits_value ds" "digits_value ds \<le> 31"
  shows "date_value tza fb (JStr (ys @ [45] @ ms @ [45] @ ds)) =
           Some (make_date (make_day (digits_value ys) (digits_value ms - 1) (digits_value ds)) 0)"
proof -
  have "0 \<le> digits_value ys \<and> digits_value ys < 10 ^ 4"
    using digits_value_bounds [of ys] assms(1,4) by simp
  then have b: "\<bar>make_date (make_day (digits_value ys) (digits_value ms - 1) (digits_value ds)) 0\<bar>
                \<le> 8640000000000000"
    using make_day_date_only assms(5-8) by simp
  show ?thesis
    using parse_iso_date_only [OF assms] b
    by (simp add: date_parse_def iso_time_value_def make_time_def time_clip_def)
qed

end
