(* ===== verification/Zod.thy ===== *)
theory Zod
  imports EsDate
begin

text \<open>
  The schema combinators \<open>content.config.ts\<close> builds its collections from, as a
  datatype of schemas (one constructor per combinator the file uses), and the
  validator that zod runs on a front-matter value, \<open>zparse\<close>, with its result
  \<open>safe_parse\<close>. The interpreter follows zod's \<open>_parse\<close> methods: every
  combinator reports its issues into one list, in the order the keys of the schema
  are visited, so that one failure report names every violated constraint; a
  combinator that cannot produce a value returns \<open>None\<close> (zod's \<open>INVALID\<close>), one
  that reports an issue but can still produce a value (a string that fails a length
  check) returns it (zod's dirty status). The \<open>image()\<close> helper Astro passes to a
  schema is a combinator whose resolver is the injected capability of the context.
\<close>

subsection \<open>Schemas, issues, context\<close>

text \<open>zod's \<open>ZodParsedType\<close> of a value (\<open>getParsedType\<close>).\<close>

datatype ztype =
  ZT_undefined | ZT_null | ZT_boolean | ZT_number | ZT_string | ZT_date | ZT_array | ZT_object

fun parsed_type :: "jval \<Rightarrow> ztype" where
  "parsed_type JUndefined = ZT_undefined"
| "parsed_type JNull = ZT_null"
| "parsed_type (JBool _) = ZT_boolean"
| "parsed_type (JNum _) = ZT_number"
| "parsed_type (JStr _) = ZT_string"
| "parsed_type (JDate _) = ZT_date"
| "parsed_type (JArr _) = ZT_array"
| "parsed_type (JObj _) = ZT_object"

text \<open>The \<open>expected\<close> field of an \<open>invalid_type\<close> issue: a type, or an enum's options.\<close>

datatype expected = Expect ztype | Expect_enum "jsstr list"

datatype issue_code =
    Invalid_type expected ztype
  | Invalid_enum_value "jsstr list" jsstr
  | Too_small nat
  | Too_big nat
  | Invalid_date
  | Unrecognized_keys "jsstr list"
  | Custom jsstr

datatype pathseg = PKey jsstr | PIdx nat

record issue =
  code :: issue_code
  path :: "pathseg list"

text \<open>The checks of \<open>z.string()\<close>: \<open>.min(n)\<close> and \<open>.max(n)\<close>.\<close>

datatype strcheck = Min nat | Max nat

text \<open>
  What \<open>z.object\<close> does with keys its shape does not declare: drop them (the
  default, \<open>strip\<close>), report them (\<open>.strict()\<close>) or keep them
  (\<open>.passthrough()\<close>).
\<close>

datatype unknown_keys = Strip | Strict | Passthrough

datatype zschema =
    ZString "strcheck list"
  | ZBoolean
  | ZCoerceDate
  | ZArray zschema
  | ZObject unknown_keys "(jsstr \<times> zschema) list"
  | ZOptional zschema
  | ZDefault jval zschema
  | ZEnum "jsstr list"
  | ZImage

text \<open>
  What validation depends on beyond the value: the local time-zone offset of the
  build and the engine's parser for date strings outside the ISO format (both for
  \<open>new Date\<close>), and the image resolver (the \<open>image\<close> helper).
\<close>

record zctx =
  local_tza :: int
  legacy_parse :: "jsstr \<Rightarrow> int option"
  resolve_image :: "jsstr \<Rightarrow> jval option"

type_synonym zresult = "issue list \<times> jval option"

subsection \<open>The validator\<close>

definition type_issue :: "pathseg list \<Rightarrow> expected \<Rightarrow> jval \<Rightarrow> issue" where
  "type_issue p e v = \<lparr>code = Invalid_type e (parsed_type v), path = p\<rparr>"

definition check_issues :: "pathseg list \<Rightarrow> jsstr \<Rightarrow> strcheck \<Rightarrow> issue list" where
  "check_issues p s c =
     (case c of
        Min n \<Rightarrow> if length s < n then [\<lparr>code = Too_small n, path = p\<rparr>] else []
      | Max n \<Rightarrow> if n < length s then [\<lparr>code = Too_big n, path = p\<rparr>] else [])"

definition image_missing :: "jsstr \<Rightarrow> jsstr" where
  "image_missing s = js ''Image '' @ s @ js '' does not exist. Is the path correct?''"

text \<open>
  The keys of an input object its shape does not declare, each once, in input order
  (\<open>for (const key in ctx.data)\<close>).
\<close>

definition extra_keys :: "(jsstr \<times> zschema) list \<Rightarrow> (jsstr \<times> jval) list \<Rightarrow> jsstr list" where
  "extra_keys fs kvs = filter (\<lambda>k. k \<notin> set (map fst fs)) (remdups (map fst kvs))"

text \<open>\<open>.strict()\<close> reports the undeclared keys in one \<open>unrecognized_keys\<close> issue.\<close>

definition unknown_issues :: "unknown_keys \<Rightarrow> pathseg list \<Rightarrow> jsstr list \<Rightarrow> issue list" where
  "unknown_issues uk p ks =
     (if uk = Strict \<and> ks \<noteq> [] then [\<lparr>code = Unrecognized_keys ks, path = p\<rparr>] else [])"

text \<open>\<open>.passthrough()\<close> copies the undeclared keys with their input values.\<close>

definition passthrough_pairs :: "unknown_keys \<Rightarrow> (jsstr \<times> jval) list \<Rightarrow> jsstr list \<Rightarrow> (jsstr \<times> jval) list" where
  "passthrough_pairs uk kvs ks = (if uk = Passthrough then map (\<lambda>k. (k, get_prop kvs k)) ks else [])"

text \<open>
  \<open>mergeObject\<close>: the result has the keys of the shape, in its order, each set when
  its value is defined or the key was present in the input (zod's \<open>alwaysSet\<close>),
  followed by the pairs the unknown-keys policy keeps; one \<open>INVALID\<close> field makes
  the object \<open>INVALID\<close>.
\<close>

definition merge_object ::
  "(jsstr \<times> jval) list \<Rightarrow> (jsstr \<times> jval option) list \<Rightarrow> (jsstr \<times> jval) list \<Rightarrow> jval option" where
  "merge_object kvs rs ex =
     (if \<forall>(k, r) \<in> set rs. r \<noteq> None
      then Some (JObj (map (\<lambda>(k, r). (k, the r))
                        (filter (\<lambda>(k, r). r \<noteq> Some JUndefined \<or> has_prop kvs k) rs) @ ex))
      else None)"

fun zparse :: "zctx \<Rightarrow> pathseg list \<Rightarrow> zschema \<Rightarrow> jval \<Rightarrow> zresult" where
  "zparse c p (ZString cs) v =
     (case v of
        JStr s \<Rightarrow> (concat (map (check_issues p s) cs), Some v)
      | _ \<Rightarrow> ([type_issue p (Expect ZT_string) v], None))"
| "zparse c p ZBoolean v =
     (case v of
        JBool _ \<Rightarrow> ([], Some v)
      | _ \<Rightarrow> ([type_issue p (Expect ZT_boolean) v], None))"
| "zparse c p ZCoerceDate v =
     (case date_value (local_tza c) (legacy_parse c) v of
        Some t \<Rightarrow> ([], Some (JDate (Some t)))
      | None \<Rightarrow> ([\<lparr>code = Invalid_date, path = p\<rparr>], None))"
| "zparse c p (ZArray s) v =
     (case v of
        JArr xs \<Rightarrow>
          (let rs = map (\<lambda>(i, x). zparse c (p @ [PIdx i]) s x) (enumerate 0 xs)
           in (concat (map fst rs),
               if \<forall>r \<in> set rs. snd r \<noteq> None then Some (JArr (map (the \<circ> snd) rs)) else None))
      | _ \<Rightarrow> ([type_issue p (Expect ZT_array) v], None))"
| "zparse c p (ZObject uk fs) v =
     (case v of
        JObj kvs \<Rightarrow>
          (let rs = map (\<lambda>(k, s). (k, zparse c (p @ [PKey k]) s (get_prop kvs k))) fs
           in (concat (map (fst \<circ> snd) rs) @ unknown_issues uk p (extra_keys fs kvs),
               merge_object kvs (map (\<lambda>(k, r). (k, snd r)) rs)
                 (passthrough_pairs uk kvs (extra_keys fs kvs))))
      | _ \<Rightarrow> ([type_issue p (Expect ZT_object) v], None))"
| "zparse c p (ZOptional s) v = (if v = JUndefined then ([], Some JUndefined) else zparse c p s v)"
| "zparse c p (ZDefault d s) v = zparse c p s (if v = JUndefined then d else v)"
| "zparse c p (ZEnum os) v =
     (case v of
        JStr s \<Rightarrow>
          if s \<in> set os then ([], Some v)
          else ([\<lparr>code = Invalid_enum_value os s, path = p\<rparr>], None)
      | _ \<Rightarrow> ([type_issue p (Expect_enum os) v], None))"
| "zparse c p ZImage v =
     (case v of
        JStr s \<Rightarrow>
          (case resolve_image c s of
             Some m \<Rightarrow> ([], Some m)
           | None \<Rightarrow> ([\<lparr>code = Custom (image_missing s), path = p\<rparr>], None))
      | _ \<Rightarrow> ([type_issue p (Expect ZT_string) v], None))"

text \<open>
  \<open>safeParse\<close>: success with the value when no issue was reported, failure with the
  issues otherwise.
\<close>

definition safe_parse :: "zctx \<Rightarrow> zschema \<Rightarrow> jval \<Rightarrow> issue list + jval" where
  "safe_parse c s v =
     (case zparse c [] s v of
        (is, Some out) \<Rightarrow> if is = [] then Inr out else Inl is
      | (is, None) \<Rightarrow> Inl is)"

text \<open>The keys an object schema declares.\<close>

fun shape_keys :: "zschema \<Rightarrow> jsstr list" where
  "shape_keys (ZObject uk fs) = map fst fs"
| "shape_keys _ = []"

subsection \<open>A declarative reading of the schemas\<close>

text \<open>
  \<open>zaccepts c s v y\<close>: the value \<open>v\<close> satisfies schema \<open>s\<close> and validates to
  \<open>y\<close>, one rule per combinator, stated without issues or paths. It is the contract
  the validator implements (theorem \<open>zparse_refines_zaccepts\<close>).
\<close>

fun check_ok :: "strcheck \<Rightarrow> jsstr \<Rightarrow> bool" where
  "check_ok (Min n) s \<longleftrightarrow> n \<le> length s"
| "check_ok (Max n) s \<longleftrightarrow> length s \<le> n"

definition keep_defined :: "(jsstr \<times> jval) list \<Rightarrow> (jsstr \<times> jval) list \<Rightarrow> (jsstr \<times> jval) list" where
  "keep_defined kvs kys = filter (\<lambda>(k, y). y \<noteq> JUndefined \<or> has_prop kvs k) kys"

inductive zaccepts :: "zctx \<Rightarrow> zschema \<Rightarrow> jval \<Rightarrow> jval \<Rightarrow> bool" for c where
  acc_string: "\<forall>ck \<in> set cs. check_ok ck s \<Longrightarrow> zaccepts c (ZString cs) (JStr s) (JStr s)"
| acc_boolean: "zaccepts c ZBoolean (JBool b) (JBool b)"
| acc_date: "date_value (local_tza c) (legacy_parse c) v = Some t \<Longrightarrow> zaccepts c ZCoerceDate v (JDate (Some t))"
| acc_array: "list_all2 (zaccepts c s) xs ys \<Longrightarrow> zaccepts c (ZArray s) (JArr xs) (JArr ys)"
| acc_object: "list_all2 (\<lambda>sv y. zaccepts c (fst sv) (snd sv) y) (map (\<lambda>(k, s). (s, get_prop kvs k)) fs) ys \<Longrightarrow>
     (uk = Strict \<longrightarrow> extra_keys fs kvs = []) \<Longrightarrow>
     zaccepts c (ZObject uk fs) (JObj kvs)
       (JObj (keep_defined kvs (zip (map fst fs) ys) @ passthrough_pairs uk kvs (extra_keys fs kvs)))"
| acc_absent: "zaccepts c (ZOptional s) JUndefined JUndefined"
| acc_present: "v \<noteq> JUndefined \<Longrightarrow> zaccepts c s v y \<Longrightarrow> zaccepts c (ZOptional s) v y"
| acc_default: "zaccepts c s (if v = JUndefined then d else v) y \<Longrightarrow> zaccepts c (ZDefault d s) v y"
| acc_enum: "x \<in> set os \<Longrightarrow> zaccepts c (ZEnum os) (JStr x) (JStr x)"
| acc_image: "resolve_image c x = Some m \<Longrightarrow> zaccepts c ZImage (JStr x) m"

lemmas zparse_aux_defs [zod_simps] = type_issue_def check_issues_def merge_object_def safe_parse_def
  extra_keys_def unknown_issues_def passthrough_pairs_def

subsection \<open>Issues: where they are reported, and that a failure always reports one\<close>

lemma check_issues_path: "i \<in> set (check_issues p s ck) \<Longrightarrow> path i = p"
  by (cases ck) (auto simp: check_issues_def split: if_splits)

lemma unknown_issues_path: "i \<in> set (unknown_issues uk p ks) \<Longrightarrow> path i = p"
  by (auto simp: unknown_issues_def split: if_splits)

lemma unknown_issues_Nil: "unknown_issues uk p ks = [] \<longleftrightarrow> (uk = Strict \<longrightarrow> ks = [])"
  by (simp add: unknown_issues_def)

lemma extra_keys_undeclared: "k \<in> set (extra_keys fs kvs) \<Longrightarrow> k \<notin> fst ` set fs"
  by (auto simp: extra_keys_def)

lemma passthrough_undeclared:
  "(k, s) \<in> set fs \<Longrightarrow> k \<notin> fst ` set (passthrough_pairs uk kvs (extra_keys fs kvs))"
  by (force simp: passthrough_pairs_def extra_keys_def)

lemma zparse_object_issues:
  "fst (zparse c p (ZObject uk fs) (JObj kvs)) =
     concat (map (\<lambda>(k, s). fst (zparse c (p @ [PKey k]) s (get_prop kvs k))) fs) @
     unknown_issues uk p (extra_keys fs kvs)"
  by (simp add: case_prod_unfold comp_def)

lemma zparse_path_prefix: "i \<in> set (fst (zparse c p s v)) \<Longrightarrow> \<exists>q. path i = p @ q"
proof (induction c p s v rule: zparse.induct)
  case (4 c p s v)
  show ?case
  proof (cases v)
    case (JArr xs)
    with "4.prems" obtain j x where "(j, x) \<in> set (enumerate 0 xs)"
      and "i \<in> set (fst (zparse c (p @ [PIdx j]) s x))"
      by (auto simp: Let_def)
    with "4.IH" JArr show ?thesis by fastforce
  qed (use "4.prems" in \<open>auto simp: zod_simps\<close>)
next
  case (5 c p uk fs v)
  show ?case
  proof (cases v)
    case (JObj kvs)
    show ?thesis
    proof (cases "i \<in> set (unknown_issues uk p (extra_keys fs kvs))")
      case True
      then show ?thesis by (auto dest: unknown_issues_path)
    next
      case False
      with "5.prems" JObj obtain k s where "(k, s) \<in> set fs"
        and "i \<in> set (fst (zparse c (p @ [PKey k]) s (get_prop kvs k)))"
        by (auto simp only: zparse_object_issues set_append set_concat) auto
      with "5.IH" JObj show ?thesis by fastforce
    qed
  qed (use "5.prems" in \<open>auto simp: zod_simps\<close>)
qed (auto simp: type_issue_def dest: check_issues_path split: jval.splits option.splits if_splits)

lemma zparse_invalid_issues: "snd (zparse c p s v) = None \<Longrightarrow> fst (zparse c p s v) \<noteq> []"
proof (induction c p s v rule: zparse.induct)
  case (4 c p s v)
  then show ?case by (fastforce split: jval.splits if_splits)
next
  case (5 c p uk fs v)
  then show ?case by (fastforce simp: merge_object_def split: jval.splits if_splits)
qed (auto split: jval.splits option.splits if_splits)

lemma object_issue_at:
  assumes "distinct (map fst fs)" and "(k, s) \<in> set fs"
  shows "(i \<in> set (fst (zparse c p (ZObject uk fs) (JObj kvs))) \<and> (\<exists>q. path i = p @ PKey k # q))
     \<longleftrightarrow> i \<in> set (fst (zparse c (p @ [PKey k]) s (get_prop kvs k)))"
proof
  assume a: "i \<in> set (fst (zparse c p (ZObject uk fs) (JObj kvs))) \<and> (\<exists>q. path i = p @ PKey k # q)"
  then obtain q where pq: "path i = p @ PKey k # q" by blast
  then have "i \<notin> set (unknown_issues uk p (extra_keys fs kvs))" by (auto dest: unknown_issues_path)
  with a obtain k' s' where mem: "(k', s') \<in> set fs"
    and i: "i \<in> set (fst (zparse c (p @ [PKey k']) s' (get_prop kvs k')))"
    by (auto simp: zparse_object_issues)
  from zparse_path_prefix [OF i] pq have "k' = k" by auto
  with assms mem have "s' = s" by (metis eq_key_imp_eq_value)
  with i \<open>k' = k\<close> show "i \<in> set (fst (zparse c (p @ [PKey k]) s (get_prop kvs k)))" by simp
next
  assume i: "i \<in> set (fst (zparse c (p @ [PKey k]) s (get_prop kvs k)))"
  with assms(2) have "i \<in> set (fst (zparse c p (ZObject uk fs) (JObj kvs)))"
    by (force simp: zparse_object_issues)
  with zparse_path_prefix [OF i]
  show "i \<in> set (fst (zparse c p (ZObject uk fs) (JObj kvs))) \<and> (\<exists>q. path i = p @ PKey k # q)"
    by auto
qed

lemma object_issue_at':
  "distinct (map fst fs) \<Longrightarrow> (k, s) \<in> set fs \<Longrightarrow> path i = p @ PKey k # q \<Longrightarrow>
   i \<in> set (fst (zparse c p (ZObject uk fs) (JObj kvs))) \<longleftrightarrow>
   i \<in> set (fst (zparse c (p @ [PKey k]) s (get_prop kvs k)))"
  using object_issue_at by blast

lemma object_field_issue:
  "(k, s) \<in> set fs \<Longrightarrow> i \<in> set (fst (zparse c (p @ [PKey k]) s (get_prop kvs k))) \<Longrightarrow>
   i \<in> set (fst (zparse c p (ZObject uk fs) (JObj kvs)))"
  by (force simp: zparse_object_issues)

lemma safe_parse_Inl: "fst (zparse c [] s v) \<noteq> [] \<Longrightarrow> safe_parse c s v = Inl (fst (zparse c [] s v))"
  by (auto simp: safe_parse_def split: prod.split option.split)

lemma safe_parse_Inr: "safe_parse c s v = Inr out \<longleftrightarrow> zparse c [] s v = ([], Some out)"
  by (auto simp: safe_parse_def split: prod.split option.split)

text \<open>A failed validation always reports at least one issue.\<close>

lemma safe_parse_failure_reports: "safe_parse c s v = Inl is \<Longrightarrow> is \<noteq> []"
  using zparse_invalid_issues [of c "[]" s v]
  by (auto simp: safe_parse_def split: prod.splits option.splits if_splits)

subsection \<open>Outputs of objects\<close>

lemma merge_object_get:
  assumes "merge_object kvs rs ex = Some out" and "distinct (map fst rs)" and "(k, r) \<in> set rs"
    and "k \<notin> fst ` set ex"
  shows "\<exists>okvs. out = JObj okvs \<and> get_prop okvs k = the r"
proof -
  let ?P = "\<lambda>k r. r \<noteq> Some JUndefined \<or> has_prop kvs k"
  have out: "out = JObj (map (\<lambda>(k, r). (k, the r)) (filter (case_prod ?P) rs) @ ex)"
    using assms(1) by (simp add: merge_object_def split: if_splits)
  have some: "map_of rs k = Some r" using assms(2,3) by (rule map_of_is_SomeI)
  have ex: "map_of ex k = None" using assms(4) by (simp add: map_of_eq_None_iff)
  show ?thesis
  proof (cases "?P k r")
    case True
    then have "map_of (filter (case_prod ?P) rs) k = Some r"
      using map_of_filter_in [OF some, of ?P] by simp
    with out show ?thesis by (simp add: get_prop_def map_of_map map_add_Some_iff)
  next
    case False
    then have "map_of (filter (case_prod ?P) rs) k = None"
      using map_of_filter_out [OF assms(2,3), of ?P] by simp
    with False out ex show ?thesis by (simp add: get_prop_def map_of_map map_add_def)
  qed
qed

lemma zparse_object_field_out:
  assumes "snd (zparse c p (ZObject uk fs) (JObj kvs)) = Some out" and "distinct (map fst fs)"
    and "(k, s) \<in> set fs"
  shows "\<exists>okvs. out = JObj okvs \<and> snd (zparse c (p @ [PKey k]) s (get_prop kvs k)) = Some (get_prop okvs k)"
proof -
  let ?rs = "map (\<lambda>(k, s). (k, snd (zparse c (p @ [PKey k]) s (get_prop kvs k)))) fs"
  let ?ex = "passthrough_pairs uk kvs (extra_keys fs kvs)"
  have m: "merge_object kvs ?rs ?ex = Some out"
    using assms(1) by (simp add: case_prod_unfold comp_def)
  have d: "distinct (map fst ?rs)" using assms(2) by (simp add: case_prod_unfold comp_def)
  have mem: "(k, snd (zparse c (p @ [PKey k]) s (get_prop kvs k))) \<in> set ?rs" using assms(3) by force
  obtain okvs where o: "out = JObj okvs"
    and g: "get_prop okvs k = the (snd (zparse c (p @ [PKey k]) s (get_prop kvs k)))"
    using merge_object_get [OF m d mem passthrough_undeclared [OF assms(3)]] by blast
  have "\<forall>(k, r) \<in> set ?rs. r \<noteq> None" using m by (simp add: merge_object_def split: if_splits)
  with mem have "snd (zparse c (p @ [PKey k]) s (get_prop kvs k)) \<noteq> None" by fastforce
  with o g show ?thesis by auto
qed

lemma zparse_object_keys:
  assumes "snd (zparse c p (ZObject uk fs) v) = Some (JObj okvs)" and "uk \<noteq> Passthrough"
  shows "fst ` set okvs \<subseteq> fst ` set fs"
proof (cases v)
  case (JObj kvs)
  with assms show ?thesis
    by (force simp: merge_object_def passthrough_pairs_def case_prod_unfold comp_def split: if_splits)
qed (use assms in auto)

subsection \<open>Outputs of defaults, strings and arrays of strings\<close>

lemma zparse_string_out: "snd (zparse c p (ZString cs) v) = Some out \<Longrightarrow> out = v"
  by (cases v) auto

lemma zparse_string_array_out:
  assumes "snd (zparse c p (ZArray (ZString cs)) v) = Some out"
  shows "out = v"
proof (cases v)
  case (JArr xs)
  let ?f = "\<lambda>(i, x). zparse c (p @ [PIdx i]) (ZString cs) x"
  from assms JArr have all: "\<forall>r \<in> set (map ?f (enumerate 0 xs)). snd r \<noteq> None"
    and out: "out = JArr (map (the \<circ> snd) (map ?f (enumerate 0 xs)))"
    by (auto simp: Let_def split: if_splits)
  have "map (the \<circ> snd \<circ> ?f) (enumerate 0 xs) = map snd (enumerate 0 xs)"
  proof (rule map_cong [OF refl])
    fix ix assume ix: "ix \<in> set (enumerate 0 xs)"
    with all have "snd (?f ix) \<noteq> None" by auto
    then show "(the \<circ> snd \<circ> ?f) ix = snd ix"
      by (cases ix) (auto split: jval.splits)
  qed
  with out JArr show ?thesis by (simp add: comp_assoc)
qed (use assms in auto)

lemma zparse_default_false_out:
  "snd (zparse c p (ZDefault (JBool False) ZBoolean) v) = Some x \<Longrightarrow>
   x = (if v = JUndefined then JBool False else v)"
  by (cases v) auto

lemma zparse_default_string_array_out:
  "snd (zparse c p (ZDefault (JArr []) (ZArray (ZString []))) v) = Some x \<Longrightarrow>
   x = (if v = JUndefined then JArr [] else v)"
  using zparse_string_array_out [of c p "[]" "if v = JUndefined then JArr [] else v" x] by simp

subsection \<open>The validator implements the declarative reading\<close>

lemma check_issues_Nil: "check_issues p s ck = [] \<longleftrightarrow> check_ok ck s"
  by (cases ck) (auto simp: check_issues_def)

lemma keep_defined_merge:
  assumes "\<forall>(k, s) \<in> set fs. snd (g k s) \<noteq> None"
  shows "merge_object kvs (map (\<lambda>(k, s). (k, snd (g k s))) fs) ex =
         Some (JObj (keep_defined kvs (zip (map fst fs) (map (\<lambda>(k, s). the (snd (g k s))) fs)) @ ex))"
proof -
  have "filter (\<lambda>(k, r). r \<noteq> Some JUndefined \<or> has_prop kvs k) (map (\<lambda>(k, s). (k, snd (g k s))) fs)
      = map (\<lambda>(k, s). (k, snd (g k s))) (filter (\<lambda>(k, s). the (snd (g k s)) \<noteq> JUndefined \<or> has_prop kvs k) fs)"
  proof -
    have "filter (\<lambda>(k, s). snd (g k s) \<noteq> Some JUndefined \<or> has_prop kvs k) fs
        = filter (\<lambda>(k, s). the (snd (g k s)) \<noteq> JUndefined \<or> has_prop kvs k) fs"
    proof (rule filter_cong [OF refl])
      fix ks assume "ks \<in> set fs"
      with assms show "(case ks of (k, s) \<Rightarrow> snd (g k s) \<noteq> Some JUndefined \<or> has_prop kvs k) =
                       (case ks of (k, s) \<Rightarrow> the (snd (g k s)) \<noteq> JUndefined \<or> has_prop kvs k)"
        by (cases ks) auto
    qed
    then show ?thesis by (simp add: filter_map comp_def case_prod_unfold)
  qed
  then show ?thesis using assms
    by (auto simp: merge_object_def keep_defined_def zip_map_same filter_map comp_def case_prod_unfold)
qed

lemma zparse_sound: "zparse c p s v = ([], Some y) \<Longrightarrow> zaccepts c s v y"
proof (induction c p s v arbitrary: y rule: zparse.induct)
  case (1 c p cs v)
  then show ?case
    by (auto split: jval.splits intro!: zaccepts.intros simp: check_issues_Nil)
next
  case (4 c p s v)
  obtain xs where v: "v = JArr xs" using "4.prems" by (cases v) auto
  let ?rs = "map (\<lambda>(i, x). zparse c (p @ [PIdx i]) s x) (enumerate 0 xs)"
  have all: "\<forall>r \<in> set ?rs. fst r = []" and some: "\<forall>r \<in> set ?rs. snd r \<noteq> None"
    and y: "y = JArr (map (the \<circ> snd) ?rs)"
    using "4.prems" v by (auto simp: Let_def split: if_splits)
  have "list_all2 (zaccepts c s) xs (map (the \<circ> snd) ?rs)"
    unfolding list_all2_conv_all_nth
  proof (intro conjI allI impI)
    fix i assume i: "i < length xs"
    have mem: "(i, xs ! i) \<in> set (enumerate 0 xs)" using i by (rule mem_enumerate_nth)
    have ri: "?rs ! i = zparse c (p @ [PIdx i]) s (xs ! i)" using i by (simp add: nth_enumerate_eq)
    have "?rs ! i \<in> set ?rs" using i by simp
    then have "?rs ! i = ([], Some (the (snd (?rs ! i))))" using all some by (rule ok_result)
    with ri have "zparse c (p @ [PIdx i]) s (xs ! i) = ([], Some (map (the \<circ> snd) ?rs ! i))"
      using i by simp
    then show "zaccepts c s (xs ! i) (map (the \<circ> snd) ?rs ! i)"
      using "4.IH" [OF v mem] by simp
  qed simp
  then show ?case using v y by (auto intro: zaccepts.acc_array)
next
  case (5 c p uk fs v)
  obtain kvs where v: "v = JObj kvs" using "5.prems" by (cases v) auto
  let ?g = "\<lambda>k s. zparse c (p @ [PKey k]) s (get_prop kvs k)"
  let ?ex = "passthrough_pairs uk kvs (extra_keys fs kvs)"
  have all: "\<forall>(k, s) \<in> set fs. fst (?g k s) = []"
    using "5.prems" v by (auto simp: Let_def case_prod_unfold)
  have strict: "uk = Strict \<longrightarrow> extra_keys fs kvs = []"
    using "5.prems" v unknown_issues_Nil [of uk p "extra_keys fs kvs"] by (simp add: Let_def)
  have m: "merge_object kvs (map (\<lambda>(k, s). (k, snd (?g k s))) fs) ?ex = Some y"
    using "5.prems" v by (simp add: Let_def case_prod_unfold comp_def)
  then have some: "\<forall>(k, s) \<in> set fs. snd (?g k s) \<noteq> None"
    by (auto simp: merge_object_def split: if_splits)
  let ?ys = "map (\<lambda>(k, s). the (snd (?g k s))) fs"
  have y: "y = JObj (keep_defined kvs (zip (map fst fs) ?ys) @ ?ex)"
    using m keep_defined_merge [OF some] by simp
  have "list_all2 (\<lambda>sv y. zaccepts c (fst sv) (snd sv) y) (map (\<lambda>(k, s). (s, get_prop kvs k)) fs) ?ys"
    unfolding list_all2_map1 list_all2_map2 list_all2_same
  proof
    fix ks assume ks: "ks \<in> set fs"
    obtain k s where kseq: "ks = (k, s)" by (cases ks)
    with ks all some have "?g k s = ([], Some (the (snd (?g k s))))" by (cases "?g k s") auto
    then have "zaccepts c s (get_prop kvs k) (the (snd (?g k s)))"
      using "5.IH" [OF v] ks kseq by blast
    then show "(\<lambda>x y. zaccepts c (fst ((\<lambda>(k, s). (s, get_prop kvs k)) x)) (snd ((\<lambda>(k, s). (s, get_prop kvs k)) x))
                 ((\<lambda>(k, s). the (snd (?g k s))) y)) ks ks"
      using kseq by simp
  qed
  then show ?case using v y strict by (auto intro: zaccepts.acc_object)
next
  case (6 c p s v)
  then show ?case by (auto split: if_splits intro: zaccepts.intros)
next
  case (7 c p d s v)
  then show ?case by (auto intro: zaccepts.intros)
qed (auto split: jval.splits option.splits if_splits intro: zaccepts.intros)

lemma object_complete:
  assumes len: "length fs = length ys"
    and nth: "\<forall>i < length fs. zparse c (p @ [PKey (fst (fs ! i))]) (snd (fs ! i)) (get_prop kvs (fst (fs ! i))) = ([], Some (ys ! i))"
    and strict: "uk = Strict \<longrightarrow> extra_keys fs kvs = []"
  shows "zparse c p (ZObject uk fs) (JObj kvs) =
           ([], Some (JObj (keep_defined kvs (zip (map fst fs) ys) @ passthrough_pairs uk kvs (extra_keys fs kvs))))"
proof -
  let ?g = "\<lambda>k s. zparse c (p @ [PKey k]) s (get_prop kvs k)"
  have pt: "\<forall>(k, s) \<in> set fs. \<exists>y. ?g k s = ([], Some y)"
  proof
    fix ks assume "ks \<in> set fs"
    then obtain i where "i < length fs" and "fs ! i = ks" by (auto simp: in_set_conv_nth)
    with nth show "case ks of (k, s) \<Rightarrow> \<exists>y. ?g k s = ([], Some y)" by (cases ks) auto
  qed
  have ys: "ys = map (\<lambda>(k, s). the (snd (?g k s))) fs"
  proof (rule nth_equalityI)
    show "length ys = length (map (\<lambda>(k, s). the (snd (?g k s))) fs)" using len by simp
  next
    fix i assume "i < length ys"
    with len nth show "ys ! i = map (\<lambda>(k, s). the (snd (?g k s))) fs ! i"
      by (auto simp: case_prod_unfold)
  qed
  have some: "\<forall>(k, s) \<in> set fs. snd (?g k s) \<noteq> None" using pt by fastforce
  have issues: "\<forall>(k, s) \<in> set fs. fst (?g k s) = []" using pt by fastforce
  have "unknown_issues uk p (extra_keys fs kvs) = []" using strict by (simp add: unknown_issues_Nil)
  then show ?thesis
    using keep_defined_merge [OF some] issues ys
    by (simp add: Let_def case_prod_unfold comp_def)
qed

lemma zparse_complete: "zaccepts c s v y \<Longrightarrow> zparse c p s v = ([], Some y)"
proof (induction arbitrary: p rule: zaccepts.induct)
  case (acc_string cs s)
  then show ?case by (simp add: check_issues_Nil)
next
  case (acc_array s xs ys)
  have len: "length xs = length ys"
    and nth: "\<forall>i < length xs. \<forall>p. zparse c p s (xs ! i) = ([], Some (ys ! i))"
    using acc_array.IH by (auto simp: list_all2_conv_all_nth)
  have rs: "map (\<lambda>(i, x). zparse c (p @ [PIdx i]) s x) (enumerate 0 xs) = map (\<lambda>y. ([], Some y)) ys"
  proof (rule nth_equalityI)
    fix i assume "i < length (map (\<lambda>(i, x). zparse c (p @ [PIdx i]) s x) (enumerate 0 xs))"
    with len nth show "map (\<lambda>(i, x). zparse c (p @ [PIdx i]) s x) (enumerate 0 xs) ! i = map (\<lambda>y. ([], Some y)) ys ! i"
      by (simp add: nth_enumerate_eq)
  qed (simp add: len)
  show ?case by (simp add: Let_def rs comp_def)
next
  case (acc_object kvs fs ys uk)
  have len: "length fs = length ys"
    and nth: "\<forall>i < length fs. \<forall>p. zparse c p (snd (fs ! i)) (get_prop kvs (fst (fs ! i))) = ([], Some (ys ! i))"
    using acc_object.IH by (auto simp: list_all2_conv_all_nth case_prod_unfold)
  show ?case using object_complete [OF len _ acc_object.hyps] nth by blast
qed (auto intro: zaccepts.intros)

lemma zparse_refines_zaccepts: "zparse c p s v = ([], Some y) \<longleftrightarrow> zaccepts c s v y"
  using zparse_sound zparse_complete by blast

text \<open>
  The validator implements its declarative contract: \<open>safeParse\<close> succeeds with
  output \<open>y\<close> exactly when the value satisfies the schema and validates to \<open>y\<close>
  according to \<open>zaccepts\<close>.
\<close>

lemma safe_parse_accepts: "safe_parse c s v = Inr y \<longleftrightarrow> zaccepts c s v y"
  using zparse_refines_zaccepts [of c "[]" s v y] safe_parse_Inr by blast

inductive_cases acc_stringE: "zaccepts c (ZString cs) v y"
inductive_cases acc_booleanE: "zaccepts c ZBoolean v y"
inductive_cases acc_dateE: "zaccepts c ZCoerceDate v y"
inductive_cases acc_arrayE: "zaccepts c (ZArray s) v y"
inductive_cases acc_objectE: "zaccepts c (ZObject uk fs) v y"
inductive_cases acc_optionalE: "zaccepts c (ZOptional s) v y"
inductive_cases acc_defaultE: "zaccepts c (ZDefault d s) v y"
inductive_cases acc_enumE: "zaccepts c (ZEnum os) v y"
inductive_cases acc_imageE: "zaccepts c ZImage v y"

subsection \<open>What each combinator accepts\<close>

text \<open>
  Whether a schema accepts a value at all, combinator by combinator, in the form a
  hand-written contract states it; with \<open>safe_parse_accepts\<close> these turn the
  question whether \<open>safeParse\<close> succeeds into a formula over the input's fields.
\<close>

lemma ex_list_all2: "(\<exists>ys. list_all2 P xs ys) \<longleftrightarrow> list_all (\<lambda>x. \<exists>y. P x y) xs"
  by (induction xs) (auto simp: list_all2_Cons1)

lemma accepts_string [accept_iff]:
  "Ex (zaccepts c (ZString cs) v) \<longleftrightarrow> (case v of JStr s \<Rightarrow> list_all (\<lambda>ck. check_ok ck s) cs | _ \<Rightarrow> False)"
  by (cases v) (auto simp: list_all_iff intro: zaccepts.intros elim: acc_stringE)

lemma accepts_boolean [accept_iff]:
  "Ex (zaccepts c ZBoolean v) \<longleftrightarrow> (case v of JBool _ \<Rightarrow> True | _ \<Rightarrow> False)"
  by (cases v) (auto intro: zaccepts.intros elim: acc_booleanE)

lemma accepts_date [accept_iff]:
  "Ex (zaccepts c ZCoerceDate v) \<longleftrightarrow> date_value (local_tza c) (legacy_parse c) v \<noteq> None"
  by (auto intro: zaccepts.intros elim: acc_dateE)

lemma accepts_array [accept_iff]:
  "Ex (zaccepts c (ZArray s) v) \<longleftrightarrow> (case v of JArr xs \<Rightarrow> list_all (\<lambda>x. Ex (zaccepts c s x)) xs | _ \<Rightarrow> False)"
proof (cases v)
  case (JArr xs)
  have "Ex (zaccepts c (ZArray s) (JArr xs)) \<longleftrightarrow> (\<exists>ys. list_all2 (zaccepts c s) xs ys)"
    by (auto intro: zaccepts.intros elim: acc_arrayE)
  with JArr show ?thesis by (simp add: ex_list_all2)
qed (auto elim: acc_arrayE)

lemma accepts_object [accept_iff]:
  "Ex (zaccepts c (ZObject uk fs) v) \<longleftrightarrow>
   (case v of
      JObj kvs \<Rightarrow> list_all (\<lambda>(k, s). Ex (zaccepts c s (get_prop kvs k))) fs \<and> (uk = Strict \<longrightarrow> extra_keys fs kvs = [])
    | _ \<Rightarrow> False)"
proof (cases v)
  case (JObj kvs)
  have "Ex (zaccepts c (ZObject uk fs) (JObj kvs)) \<longleftrightarrow>
        (\<exists>ys. list_all2 (\<lambda>sv y. zaccepts c (fst sv) (snd sv) y) (map (\<lambda>(k, s). (s, get_prop kvs k)) fs) ys)
        \<and> (uk = Strict \<longrightarrow> extra_keys fs kvs = [])"
    by (auto intro: zaccepts.intros elim: acc_objectE)
  with JObj show ?thesis by (simp add: ex_list_all2 list_all_iff case_prod_unfold)
qed (auto elim: acc_objectE)

lemma accepts_optional [accept_iff]:
  "Ex (zaccepts c (ZOptional s) v) \<longleftrightarrow> v = JUndefined \<or> Ex (zaccepts c s v)"
  by (auto intro: zaccepts.intros elim: acc_optionalE)

lemma accepts_default:
  "Ex (zaccepts c (ZDefault d s) v) \<longleftrightarrow> (if v = JUndefined then Ex (zaccepts c s d) else Ex (zaccepts c s v))"
proof
  assume "Ex (zaccepts c (ZDefault d s) v)"
  then show "if v = JUndefined then Ex (zaccepts c s d) else Ex (zaccepts c s v)"
    by (auto elim!: acc_defaultE)
next
  assume "if v = JUndefined then Ex (zaccepts c s d) else Ex (zaccepts c s v)"
  then obtain y where "zaccepts c s (if v = JUndefined then d else v) y" by (auto split: if_splits)
  then show "Ex (zaccepts c (ZDefault d s) v)" by (blast intro: zaccepts.acc_default)
qed

text \<open>A default the inner schema accepts makes the field optional.\<close>

lemma accepts_default_valid [accept_iff]:
  "Ex (zaccepts c s d) \<Longrightarrow> Ex (zaccepts c (ZDefault d s) v) \<longleftrightarrow> v = JUndefined \<or> Ex (zaccepts c s v)"
  by (simp add: accepts_default)

lemma accepts_enum [accept_iff]:
  "Ex (zaccepts c (ZEnum os) v) \<longleftrightarrow> (case v of JStr x \<Rightarrow> x \<in> set os | _ \<Rightarrow> False)"
  by (cases v) (auto intro: zaccepts.intros elim: acc_enumE)

lemma accepts_image [accept_iff]:
  "Ex (zaccepts c ZImage v) \<longleftrightarrow> (case v of JStr x \<Rightarrow> resolve_image c x \<noteq> None | _ \<Rightarrow> False)"
  by (cases v) (auto intro: zaccepts.intros elim: acc_imageE)

subsection \<open>Locality of object validation\<close>

text \<open>
  Under the default \<open>strip\<close> policy an object schema reads nothing of its input but
  the keys it declares: their values and whether they are present.
\<close>

lemma zparse_strip_local:
  assumes "\<forall>k \<in> set (map fst fs). get_prop kvs k = get_prop kvs' k \<and> has_prop kvs k = has_prop kvs' k"
  shows "zparse c p (ZObject Strip fs) (JObj kvs) = zparse c p (ZObject Strip fs) (JObj kvs')"
proof -
  let ?rs = "\<lambda>kvs. map (\<lambda>(k, s). (k, zparse c (p @ [PKey k]) s (get_prop kvs k))) fs"
  let ?ms = "\<lambda>kvs. map (\<lambda>(k, r). (k, snd r)) (?rs kvs)"
  have eq: "zparse c p (ZObject Strip fs) (JObj kvs0) =
            (concat (map (fst \<circ> snd) (?rs kvs0)), merge_object kvs0 (?ms kvs0) [])" for kvs0
    by (simp add: unknown_issues_def passthrough_pairs_def)
  have rs: "?rs kvs = ?rs kvs'"
    using assms by (auto simp: case_prod_unfold)
  have f: "filter (\<lambda>(k, r). r \<noteq> Some JUndefined \<or> has_prop kvs k) (?ms kvs') =
           filter (\<lambda>(k, r). r \<noteq> Some JUndefined \<or> has_prop kvs' k) (?ms kvs')"
    by (rule filter_cong) (use assms in \<open>auto simp: case_prod_unfold\<close>)
  have m: "merge_object kvs (?ms kvs') [] = merge_object kvs' (?ms kvs') []"
    unfolding merge_object_def f ..
  show ?thesis by (simp only: eq rs m)
qed

lemma zparse_object_absent:
  assumes "snd (zparse c p (ZObject uk fs) (JObj kvs)) = Some (JObj okvs)" and "distinct (map fst fs)"
    and "(k, s) \<in> set fs" and "\<not> has_prop kvs k"
    and "snd (zparse c (p @ [PKey k]) s JUndefined) = Some JUndefined"
  shows "\<not> has_prop okvs k"
proof
  let ?rs = "map (\<lambda>(k, s). (k, snd (zparse c (p @ [PKey k]) s (get_prop kvs k)))) fs"
  let ?P = "\<lambda>(k, r). r \<noteq> Some JUndefined \<or> has_prop kvs k"
  let ?ex = "passthrough_pairs uk kvs (extra_keys fs kvs)"
  have okvs: "okvs = map (\<lambda>(k, r). (k, the r)) (filter ?P ?rs) @ ?ex"
    using assms(1) by (simp add: case_prod_unfold comp_def merge_object_def split: if_splits)
  assume "has_prop okvs k"
  moreover have "k \<notin> fst ` set ?ex" by (rule passthrough_undeclared [OF assms(3)])
  ultimately obtain r where r: "(k, r) \<in> set (filter ?P ?rs)"
    by (force simp: okvs has_prop_def)
  then obtain s' where "(k, s') \<in> set fs" and "r = snd (zparse c (p @ [PKey k]) s' (get_prop kvs k))"
    by auto
  with assms(2,3) have "r = Some JUndefined" using assms(4,5) by (metis eq_key_imp_eq_value get_prop_absent)
  with r assms(4) show False by simp
qed

lemma array_elem_issue:
  "(j, x) \<in> set (enumerate 0 xs) \<Longrightarrow> i \<in> set (fst (zparse c (p @ [PIdx j]) s x)) \<Longrightarrow>
   i \<in> set (fst (zparse c p (ZArray s) (JArr xs)))"
  by (force simp: Let_def)

end
