(* ===== verification/Content.thy ===== *)
theory Content
  imports Zod "HOL-Library.Sublist"
begin

text \<open>
  The schema registry of \<open>src/content.config.ts\<close>: the three collections
  \<open>blog\<close>, \<open>pages\<close> and \<open>projects\<close>, each a glob loader over its base
  directory and a schema built from the combinators of \<open>Zod\<close>. The \<open>seo\<close>
  sub-schema is written out three times in the source, so it is three definitions
  here, one per collection. Every \<open>z.object\<close> of the file has zod's default
  unknown-keys policy, \<open>strip\<close>.
\<close>

subsection \<open>Schemas\<close>

definition blog_seo :: zschema where
  "blog_seo =
     ZOptional (ZObject Strip
       [(js ''title'', ZOptional (ZString [Min 5, Max 120])),
        (js ''description'', ZOptional (ZString [Min 15, Max 160])),
        (js ''image'', ZOptional (ZObject Strip
           [(js ''src'', ZImage),
            (js ''alt'', ZOptional (ZString []))])),
        (js ''pageType'', ZDefault (JStr (js ''website'')) (ZEnum [js ''website'', js ''article'']))])"

definition blog_schema :: zschema where
  "blog_schema =
     ZObject Strip
       [(js ''title'', ZString []),
        (js ''excerpt'', ZOptional (ZString [])),
        (js ''publishDate'', ZCoerceDate),
        (js ''updatedDate'', ZOptional ZCoerceDate),
        (js ''isFeatured'', ZDefault (JBool False) ZBoolean),
        (js ''tags'', ZDefault (JArr []) (ZArray (ZString []))),
        (js ''seo'', blog_seo)]"

definition pages_seo :: zschema where
  "pages_seo =
     ZOptional (ZObject Strip
       [(js ''title'', ZOptional (ZString [Min 5, Max 120])),
        (js ''description'', ZOptional (ZString [Min 15, Max 160])),
        (js ''image'', ZOptional (ZObject Strip
           [(js ''src'', ZImage),
            (js ''alt'', ZOptional (ZString []))])),
        (js ''pageType'', ZDefault (JStr (js ''website'')) (ZEnum [js ''website'', js ''article'']))])"

definition pages_schema :: zschema where
  "pages_schema =
     ZObject Strip
       [(js ''title'', ZString []),
        (js ''seo'', pages_seo)]"

definition projects_seo :: zschema where
  "projects_seo =
     ZOptional (ZObject Strip
       [(js ''title'', ZOptional (ZString [Min 5, Max 120])),
        (js ''description'', ZOptional (ZString [Min 15, Max 160])),
        (js ''image'', ZOptional (ZObject Strip
           [(js ''src'', ZImage),
            (js ''alt'', ZOptional (ZString []))])),
        (js ''pageType'', ZDefault (JStr (js ''website'')) (ZEnum [js ''website'', js ''article'']))])"

definition projects_schema :: zschema where
  "projects_schema =
     ZObject Strip
       [(js ''title'', ZString []),
        (js ''description'', ZOptional (ZString [])),
        (js ''publishDate'', ZCoerceDate),
        (js ''isFeatured'', ZDefault (JBool False) ZBoolean),
        (js ''seo'', projects_seo)]"

subsection \<open>The registry and its loaders\<close>

text \<open>\<open>export const collections = { blog, pages, projects }\<close>.\<close>

datatype collection = Blog | Pages | Projects

fun collection_schema :: "collection \<Rightarrow> zschema" where
  "collection_schema Blog = blog_schema"
| "collection_schema Pages = pages_schema"
| "collection_schema Projects = projects_schema"

text \<open>
  \<open>glob({ pattern, base })\<close>: the loader's options as the source writes them. A
  path is a list of segments (the string split at \<open>/\<close>); the base
  \<open>./src/content/blog\<close> is the segments after the leading \<open>.\<close>.
\<close>

record glob_loader =
  pattern :: jsstr
  base :: "jsstr list"

definition blog_loader :: glob_loader where
  "blog_loader = \<lparr>pattern = js ''**/*.{md,mdx}'', base = [js ''src'', js ''content'', js ''blog'']\<rparr>"

definition pages_loader :: glob_loader where
  "pages_loader = \<lparr>pattern = js ''**/*.{md,mdx}'', base = [js ''src'', js ''content'', js ''pages'']\<rparr>"

definition projects_loader :: glob_loader where
  "projects_loader = \<lparr>pattern = js ''**/*.{md,mdx}'', base = [js ''src'', js ''content'', js ''projects'']\<rparr>"

fun collection_loader :: "collection \<Rightarrow> glob_loader" where
  "collection_loader Blog = blog_loader"
| "collection_loader Pages = pages_loader"
| "collection_loader Projects = projects_loader"

text \<open>
  What \<open>**/*.{md,mdx}\<close> matches under the glob library's defaults (no
  \<open>dot\<close> option): any number of directory segments, none empty or starting with
  a dot, then a file name that does not start with a dot and ends in \<open>.md\<close> or
  \<open>.mdx\<close>.
\<close>

definition visible_segment :: "jsstr \<Rightarrow> bool" where
  "visible_segment seg \<longleftrightarrow> seg \<noteq> [] \<and> hd seg \<noteq> 46"

definition md_file_name :: "jsstr \<Rightarrow> bool" where
  "md_file_name seg \<longleftrightarrow> visible_segment seg \<and> (suffix (js ''.md'') seg \<or> suffix (js ''.mdx'') seg)"

fun md_glob :: "jsstr list \<Rightarrow> bool" where
  "md_glob [] = False"
| "md_glob [f] = md_file_name f"
| "md_glob (d # rest) = (visible_segment d \<and> md_glob rest)"

text \<open>A file (its path segments from the project root) that a collection's loader finds.\<close>

definition discovered :: "collection \<Rightarrow> jsstr list \<Rightarrow> bool" where
  "discovered col segs \<longleftrightarrow>
     (let b = base (collection_loader col)
      in take (length b) segs = b \<and> md_glob (drop (length b) segs))"

subsection \<open>The contract of a collection\<close>

text \<open>
  What the front matter of an entry must satisfy, field by field, as the data model of
  the specification tabulates it (required and optional fields, the shared \<open>seo\<close>
  rules), with what the code adds to it: \<open>publishDate\<close> must coerce to a valid date
  in blog and projects alike. A field is optional when \<open>undefined\<close> (absent) is
  allowed; a field with a default is optional too.
\<close>

definition is_str :: "jval \<Rightarrow> bool" where
  "is_str v = (case v of JStr _ \<Rightarrow> True | _ \<Rightarrow> False)"

definition is_bool :: "jval \<Rightarrow> bool" where
  "is_bool v = (case v of JBool _ \<Rightarrow> True | _ \<Rightarrow> False)"

definition str_len_within :: "nat \<Rightarrow> nat \<Rightarrow> jval \<Rightarrow> bool" where
  "str_len_within lo hi v = (case v of JStr s \<Rightarrow> lo \<le> length s \<and> length s \<le> hi | _ \<Rightarrow> False)"

definition str_list :: "jval \<Rightarrow> bool" where
  "str_list v = (case v of JArr xs \<Rightarrow> list_all is_str xs | _ \<Rightarrow> False)"

definition optional :: "(jval \<Rightarrow> bool) \<Rightarrow> jval \<Rightarrow> bool" where
  "optional P v \<longleftrightarrow> v = JUndefined \<or> P v"

definition date_ok :: "zctx \<Rightarrow> jval \<Rightarrow> bool" where
  "date_ok c v \<longleftrightarrow> date_value (local_tza c) (legacy_parse c) v \<noteq> None"

definition image_ok :: "zctx \<Rightarrow> jval \<Rightarrow> bool" where
  "image_ok c v =
     (case v of
        JObj ikvs \<Rightarrow>
          (case get_prop ikvs (js ''src'') of JStr s \<Rightarrow> resolve_image c s \<noteq> None | _ \<Rightarrow> False) \<and>
          optional is_str (get_prop ikvs (js ''alt''))
      | _ \<Rightarrow> False)"

definition page_type_ok :: "jval \<Rightarrow> bool" where
  "page_type_ok v = (case v of JStr x \<Rightarrow> x \<in> {js ''website'', js ''article''} | _ \<Rightarrow> False)"

definition seo_ok :: "zctx \<Rightarrow> jval \<Rightarrow> bool" where
  "seo_ok c v =
     (case v of
        JObj skvs \<Rightarrow>
          optional (str_len_within 5 120) (get_prop skvs (js ''title'')) \<and>
          optional (str_len_within 15 160) (get_prop skvs (js ''description'')) \<and>
          optional (image_ok c) (get_prop skvs (js ''image'')) \<and>
          optional page_type_ok (get_prop skvs (js ''pageType''))
      | _ \<Rightarrow> False)"

fun front_matter_ok :: "collection \<Rightarrow> zctx \<Rightarrow> (jsstr \<times> jval) list \<Rightarrow> bool" where
  "front_matter_ok Blog c kvs \<longleftrightarrow>
     is_str (get_prop kvs (js ''title'')) \<and>
     optional is_str (get_prop kvs (js ''excerpt'')) \<and>
     date_ok c (get_prop kvs (js ''publishDate'')) \<and>
     optional (date_ok c) (get_prop kvs (js ''updatedDate'')) \<and>
     optional is_bool (get_prop kvs (js ''isFeatured'')) \<and>
     optional str_list (get_prop kvs (js ''tags'')) \<and>
     optional (seo_ok c) (get_prop kvs (js ''seo''))"
| "front_matter_ok Pages c kvs \<longleftrightarrow>
     is_str (get_prop kvs (js ''title'')) \<and>
     optional (seo_ok c) (get_prop kvs (js ''seo''))"
| "front_matter_ok Projects c kvs \<longleftrightarrow>
     is_str (get_prop kvs (js ''title'')) \<and>
     optional is_str (get_prop kvs (js ''description'')) \<and>
     date_ok c (get_prop kvs (js ''publishDate'')) \<and>
     optional is_bool (get_prop kvs (js ''isFeatured'')) \<and>
     optional (seo_ok c) (get_prop kvs (js ''seo''))"

lemmas contract_defs = is_str_def [abs_def] is_bool_def str_len_within_def str_list_def optional_def
  date_ok_def [abs_def] image_ok_def page_type_ok_def seo_ok_def

lemmas schema_defs =
  blog_seo_def blog_schema_def pages_seo_def pages_schema_def projects_seo_def projects_schema_def

subsection \<open>Shape of the registry\<close>

lemma pages_seo_eq: "pages_seo = blog_seo"
  by (simp add: pages_seo_def blog_seo_def)

lemma projects_seo_eq: "projects_seo = blog_seo"
  by (simp add: projects_seo_def blog_seo_def)

lemma collection_schema_shape:
  "\<exists>fs. collection_schema col = ZObject Strip fs \<and> distinct (map fst fs) \<and>
     (js ''title'', ZString []) \<in> set fs \<and> (js ''seo'', blog_seo) \<in> set fs"
  by (cases col) (simp_all add: blog_schema_def pages_schema_def projects_schema_def pages_seo_eq projects_seo_eq)

lemma blog_fields:
  "\<exists>fs. blog_schema = ZObject Strip fs \<and> distinct (map fst fs) \<and>
      (js ''isFeatured'', ZDefault (JBool False) ZBoolean) \<in> set fs \<and>
      (js ''tags'', ZDefault (JArr []) (ZArray (ZString []))) \<in> set fs"
  by (simp add: blog_schema_def)

lemma dated_fields:
  "col \<noteq> Pages \<Longrightarrow> \<exists>fs. collection_schema col = ZObject Strip fs \<and> distinct (map fst fs) \<and>
     (js ''publishDate'', ZCoerceDate) \<in> set fs"
  by (cases col) (simp_all add: blog_schema_def projects_schema_def)

lemma collection_schema_out:
  "safe_parse c (collection_schema col) (JObj kvs) = Inr out \<Longrightarrow> collection_schema col = ZObject uk fs \<Longrightarrow>
   snd (zparse c [] (ZObject uk fs) (JObj kvs)) = Some out"
  by (simp add: safe_parse_Inr)

subsection \<open>Issues and outputs inside \<open>seo\<close>\<close>

lemma seo_issue:
  assumes "get_prop kvs (js ''seo'') = JObj skvs" and "path i = PKey (js ''seo'') # q"
  shows "i \<in> set (fst (zparse c [] (collection_schema col) (JObj kvs))) \<longleftrightarrow>
         i \<in> set (fst (zparse c [PKey (js ''seo'')] blog_seo (JObj skvs)))"
  using collection_schema_shape [of col] object_issue_at' [of _ "js ''seo''" blog_seo i "[]" q c _ kvs] assms
  by auto

lemma seo_field_issue:
  assumes "blog_seo = ZOptional (ZObject Strip sf)" and "distinct (map fst sf)" and "(k, s) \<in> set sf"
    and "path i = [PKey (js ''seo''), PKey k] @ q"
  shows "i \<in> set (fst (zparse c [PKey (js ''seo'')] blog_seo (JObj skvs))) \<longleftrightarrow>
         i \<in> set (fst (zparse c [PKey (js ''seo''), PKey k] s (get_prop skvs k)))"
proof -
  have "zparse c [PKey (js ''seo'')] blog_seo (JObj skvs) = zparse c [PKey (js ''seo'')] (ZObject Strip sf) (JObj skvs)"
    by (simp add: assms(1))
  then show ?thesis
    using object_issue_at' [OF assms(2,3), of i "[PKey (js ''seo'')]" q c Strip skvs] assms(4) by simp
qed

text \<open>An issue of a string field of \<open>seo\<close> is one of its length checks.\<close>

lemma seo_string_issue:
  assumes "get_prop kvs (js ''seo'') = JObj skvs" and "blog_seo = ZOptional (ZObject Strip sf)"
    and "distinct (map fst sf)" and "(k, ZOptional (ZString cs)) \<in> set sf"
    and "get_prop skvs k = JStr s" and "path i = [PKey (js ''seo''), PKey k]"
  shows "i \<in> set (fst (zparse c [] (collection_schema col) (JObj kvs))) \<longleftrightarrow>
         i \<in> set (concat (map (check_issues [PKey (js ''seo''), PKey k] s) cs))"
  using seo_issue [OF assms(1), of i "[PKey k]" c col] seo_field_issue [OF assms(2-4), of i "[]" c skvs] assms(5,6)
  by simp

lemma seo_field_out:
  assumes "snd (zparse c [] (collection_schema col) (JObj kvs)) = Some out"
    and "get_prop kvs (js ''seo'') = JObj skvs"
    and "blog_seo = ZOptional (ZObject Strip sf)" and "distinct (map fst sf)" and "(k, s) \<in> set sf"
  shows "\<exists>okvs sokvs. out = JObj okvs \<and> get_prop okvs (js ''seo'') = JObj sokvs \<and>
           snd (zparse c [PKey (js ''seo''), PKey k] s (get_prop skvs k)) = Some (get_prop sokvs k)"
proof -
  obtain fs where fs: "collection_schema col = ZObject Strip fs" "distinct (map fst fs)"
      "(js ''seo'', blog_seo) \<in> set fs"
    using collection_schema_shape by blast
  obtain okvs where o: "out = JObj okvs"
    and seo: "snd (zparse c [PKey (js ''seo'')] blog_seo (JObj skvs)) = Some (get_prop okvs (js ''seo''))"
    using zparse_object_field_out [of c "[]" Strip fs kvs out "js ''seo''" blog_seo] assms(1,2) fs by auto
  from seo have "snd (zparse c [PKey (js ''seo'')] (ZObject Strip sf) (JObj skvs)) = Some (get_prop okvs (js ''seo''))"
    by (simp add: assms(3))
  then obtain sokvs where "get_prop okvs (js ''seo'') = JObj sokvs"
    and "snd (zparse c [PKey (js ''seo''), PKey k] s (get_prop skvs k)) = Some (get_prop sokvs k)"
    using zparse_object_field_out [OF _ assms(4,5)] by fastforce
  with o show ?thesis by blast
qed

subsection \<open>Issues and outputs of \<open>publishDate\<close>\<close>

lemma date_field_issue:
  assumes "col \<noteq> Pages" and "date_value (local_tza c) (legacy_parse c) (get_prop kvs (js ''publishDate'')) = None"
  shows "\<exists>is. safe_parse c (collection_schema col) (JObj kvs) = Inl is \<and>
           \<lparr>code = Invalid_date, path = [PKey (js ''publishDate'')]\<rparr> \<in> set is"
proof -
  obtain fs where fs: "collection_schema col = ZObject Strip fs" "(js ''publishDate'', ZCoerceDate) \<in> set fs"
    using dated_fields [OF assms(1)] by blast
  let ?i = "\<lparr>code = Invalid_date, path = [PKey (js ''publishDate'')]\<rparr>"
  have i: "?i \<in> set (fst (zparse c [] (collection_schema col) (JObj kvs)))"
    using object_field_issue [OF fs(2), of ?i c "[]" kvs Strip] fs(1) assms(2) by simp
  then have "fst (zparse c [] (collection_schema col) (JObj kvs)) \<noteq> []" by auto
  with i show ?thesis using safe_parse_Inl by blast
qed

lemma date_field_out:
  assumes "col \<noteq> Pages" and "safe_parse c (collection_schema col) (JObj kvs) = Inr out"
  shows "\<exists>okvs t. out = JObj okvs \<and>
           date_value (local_tza c) (legacy_parse c) (get_prop kvs (js ''publishDate'')) = Some t \<and>
           get_prop okvs (js ''publishDate'') = JDate (Some t)"
proof -
  obtain fs where fs: "collection_schema col = ZObject Strip fs" "distinct (map fst fs)"
      "(js ''publishDate'', ZCoerceDate) \<in> set fs"
    using dated_fields [OF assms(1)] by blast
  have ok: "snd (zparse c [] (ZObject Strip fs) (JObj kvs)) = Some out"
    using collection_schema_out [OF assms(2) fs(1)] .
  obtain okvs where o: "out = JObj okvs"
    and d: "snd (zparse c [PKey (js ''publishDate'')] ZCoerceDate (get_prop kvs (js ''publishDate''))) =
            Some (get_prop okvs (js ''publishDate''))"
    using zparse_object_field_out [OF ok fs(2,3), unfolded append_Nil] by blast
  then show ?thesis by (auto split: option.splits)
qed

lemma date_field_value:
  assumes "col \<noteq> Pages" and "safe_parse c (collection_schema col) (JObj kvs) = Inr out"
    and "date_value (local_tza c) (legacy_parse c) (get_prop kvs (js ''publishDate'')) = Some t"
  shows "\<exists>okvs. out = JObj okvs \<and> get_prop okvs (js ''publishDate'') = JDate (Some t)"
  using date_field_out [OF assms(1,2)] assms(3) by auto

lemma blog_seo_fields:
  "\<exists>sf. blog_seo = ZOptional (ZObject Strip sf) \<and> distinct (map fst sf) \<and>
     (js ''title'', ZOptional (ZString [Min 5, Max 120])) \<in> set sf \<and>
     (js ''description'', ZOptional (ZString [Min 15, Max 160])) \<in> set sf \<and>
     (js ''image'', ZOptional (ZObject Strip [(js ''src'', ZImage), (js ''alt'', ZOptional (ZString []))])) \<in> set sf"
  by (simp add: blog_seo_def)

subsection \<open>Required fields and length bounds\<close>

text \<open>
  C1: In every collection, a front-matter block without a \<open>title\<close> key fails
  validation, and the failure report contains zod's "Required" issue for it: an
  \<open>invalid_type\<close> issue at path \<open>title\<close> that expected a string and received
  \<open>undefined\<close>.
\<close>

theorem title_required:
  assumes "\<not> has_prop kvs (js ''title'')"
  shows "\<exists>is. safe_parse c (collection_schema col) (JObj kvs) = Inl is \<and>
           \<lparr>code = Invalid_type (Expect ZT_string) ZT_undefined, path = [PKey (js ''title'')]\<rparr> \<in> set is"
proof -
  obtain fs where fs: "collection_schema col = ZObject Strip fs" "(js ''title'', ZString []) \<in> set fs"
    using collection_schema_shape by blast
  let ?i = "\<lparr>code = Invalid_type (Expect ZT_string) ZT_undefined, path = [PKey (js ''title'')]\<rparr>"
  have i: "?i \<in> set (fst (zparse c [] (collection_schema col) (JObj kvs)))"
    using object_field_issue [OF fs(2), of ?i c "[]" kvs Strip] fs(1) assms by (simp add: type_issue_def)
  then have "fst (zparse c [] (collection_schema col) (JObj kvs)) \<noteq> []" by auto
  with i show ?thesis using safe_parse_Inl by blast
qed

lemma title_required_witness:
  "\<not> has_prop [(js ''excerpt'', JStr (js ''x''))] (js ''title'') \<and>
   (\<exists>is. safe_parse (\<lparr>local_tza = 0, legacy_parse = (\<lambda>_. None), resolve_image = (\<lambda>_. None)\<rparr>) (collection_schema Blog)
          (JObj [(js ''excerpt'', JStr (js ''x''))]) = Inl is \<and>
        \<lparr>code = Invalid_type (Expect ZT_string) ZT_undefined, path = [PKey (js ''title'')]\<rparr> \<in> set is)"
  using title_required [of "[(js ''excerpt'', JStr (js ''x''))]" "\<lparr>local_tza = 0, legacy_parse = (\<lambda>_. None), resolve_image = (\<lambda>_. None)\<rparr>" Blog]
  by simp

text \<open>
  C2: In every collection, when the front matter has an \<open>seo\<close> object whose
  \<open>title\<close> is a string, the report has a \<open>too_small\<close> issue with minimum 5 at
  \<open>seo.title\<close> exactly when the title has fewer than 5 UTF-16 code units, and a
  \<open>too_big\<close> issue with maximum 120 exactly when it has more than 120.
\<close>

theorem seo_title_length:
  assumes "get_prop kvs (js ''seo'') = JObj skvs" and "get_prop skvs (js ''title'') = JStr s"
  shows "(\<lparr>code = Too_small 5, path = [PKey (js ''seo''), PKey (js ''title'')]\<rparr>
            \<in> set (fst (zparse c [] (collection_schema col) (JObj kvs))) \<longleftrightarrow> length s < 5) \<and>
         (\<lparr>code = Too_big 120, path = [PKey (js ''seo''), PKey (js ''title'')]\<rparr>
            \<in> set (fst (zparse c [] (collection_schema col) (JObj kvs))) \<longleftrightarrow> 120 < length s)"
proof -
  obtain sf where sf: "blog_seo = ZOptional (ZObject Strip sf)" "distinct (map fst sf)"
      "(js ''title'', ZOptional (ZString [Min 5, Max 120])) \<in> set sf"
    using blog_seo_fields by blast
  show ?thesis
    using seo_string_issue [OF assms(1) sf assms(2)] by (simp add: check_issues_def)
qed

lemma seo_title_length_witness:
  "get_prop [(js ''seo'', JObj [(js ''title'', JStr (js ''abcd''))])] (js ''seo'') = JObj [(js ''title'', JStr (js ''abcd''))] \<and>
   get_prop [(js ''title'', JStr (js ''abcd''))] (js ''title'') = JStr (js ''abcd'') \<and>
   (\<lparr>code = Too_small 5, path = [PKey (js ''seo''), PKey (js ''title'')]\<rparr>
      \<in> set (fst (zparse (\<lparr>local_tza = 0, legacy_parse = (\<lambda>_. None), resolve_image = (\<lambda>_. None)\<rparr>) [] (collection_schema Projects)
                 (JObj [(js ''seo'', JObj [(js ''title'', JStr (js ''abcd''))])]))) \<longleftrightarrow> length (js ''abcd'') < 5) \<and>
   (\<lparr>code = Too_big 120, path = [PKey (js ''seo''), PKey (js ''title'')]\<rparr>
      \<in> set (fst (zparse (\<lparr>local_tza = 0, legacy_parse = (\<lambda>_. None), resolve_image = (\<lambda>_. None)\<rparr>) [] (collection_schema Projects)
                 (JObj [(js ''seo'', JObj [(js ''title'', JStr (js ''abcd''))])]))) \<longleftrightarrow> 120 < length (js ''abcd''))"
  using seo_title_length [of "[(js ''seo'', JObj [(js ''title'', JStr (js ''abcd''))])]"
      "[(js ''title'', JStr (js ''abcd''))]" "js ''abcd''" "\<lparr>local_tza = 0, legacy_parse = (\<lambda>_. None), resolve_image = (\<lambda>_. None)\<rparr>" Projects]
  by simp

text \<open>
  C3: In every collection, when the front matter has an \<open>seo\<close> object whose
  \<open>description\<close> is a string, the report has a \<open>too_small\<close> issue with minimum 15 at
  \<open>seo.description\<close> exactly when the description has fewer than 15 UTF-16 code units,
  and a \<open>too_big\<close> issue with maximum 160 exactly when it has more than 160.
\<close>

theorem seo_description_length:
  assumes "get_prop kvs (js ''seo'') = JObj skvs" and "get_prop skvs (js ''description'') = JStr s"
  shows "(\<lparr>code = Too_small 15, path = [PKey (js ''seo''), PKey (js ''description'')]\<rparr>
            \<in> set (fst (zparse c [] (collection_schema col) (JObj kvs))) \<longleftrightarrow> length s < 15) \<and>
         (\<lparr>code = Too_big 160, path = [PKey (js ''seo''), PKey (js ''description'')]\<rparr>
            \<in> set (fst (zparse c [] (collection_schema col) (JObj kvs))) \<longleftrightarrow> 160 < length s)"
proof -
  obtain sf where sf: "blog_seo = ZOptional (ZObject Strip sf)" "distinct (map fst sf)"
      "(js ''description'', ZOptional (ZString [Min 15, Max 160])) \<in> set sf"
    using blog_seo_fields by blast
  show ?thesis
    using seo_string_issue [OF assms(1) sf assms(2)] by (simp add: check_issues_def)
qed

lemma seo_description_length_witness:
  "get_prop [(js ''seo'', JObj [(js ''description'', JStr (js ''too short''))])] (js ''seo'') =
     JObj [(js ''description'', JStr (js ''too short''))] \<and>
   get_prop [(js ''description'', JStr (js ''too short''))] (js ''description'') = JStr (js ''too short'') \<and>
   (\<lparr>code = Too_small 15, path = [PKey (js ''seo''), PKey (js ''description'')]\<rparr>
      \<in> set (fst (zparse (\<lparr>local_tza = 0, legacy_parse = (\<lambda>_. None), resolve_image = (\<lambda>_. None)\<rparr>) [] (collection_schema Pages)
                 (JObj [(js ''seo'', JObj [(js ''description'', JStr (js ''too short''))])]))) \<longleftrightarrow>
      length (js ''too short'') < 15) \<and>
   (\<lparr>code = Too_big 160, path = [PKey (js ''seo''), PKey (js ''description'')]\<rparr>
      \<in> set (fst (zparse (\<lparr>local_tza = 0, legacy_parse = (\<lambda>_. None), resolve_image = (\<lambda>_. None)\<rparr>) [] (collection_schema Pages)
                 (JObj [(js ''seo'', JObj [(js ''description'', JStr (js ''too short''))])]))) \<longleftrightarrow>
      160 < length (js ''too short''))"
  using seo_description_length [of "[(js ''seo'', JObj [(js ''description'', JStr (js ''too short''))])]"
      "[(js ''description'', JStr (js ''too short''))]" "js ''too short''" "\<lparr>local_tza = 0, legacy_parse = (\<lambda>_. None), resolve_image = (\<lambda>_. None)\<rparr>" Pages]
  by simp

subsection \<open>Defaults and the \<open>pageType\<close> enumeration\<close>

text \<open>
  C4: A blog entry that validates keeps an explicit \<open>isFeatured\<close> and \<open>tags\<close> and gets
  the declared defaults only where they are absent: \<open>isFeatured\<close> is \<open>false\<close> and
  \<open>tags\<close> the empty array when the key is missing, the input's value otherwise.
\<close>

theorem blog_defaults:
  assumes "safe_parse c blog_schema (JObj kvs) = Inr out"
  shows "\<exists>okvs. out = JObj okvs \<and>
     get_prop okvs (js ''isFeatured'') =
       (if get_prop kvs (js ''isFeatured'') = JUndefined then JBool False else get_prop kvs (js ''isFeatured'')) \<and>
     get_prop okvs (js ''tags'') =
       (if get_prop kvs (js ''tags'') = JUndefined then JArr [] else get_prop kvs (js ''tags''))"
proof -
  obtain fs where fs: "blog_schema = ZObject Strip fs" "distinct (map fst fs)"
      "(js ''isFeatured'', ZDefault (JBool False) ZBoolean) \<in> set fs"
      "(js ''tags'', ZDefault (JArr []) (ZArray (ZString []))) \<in> set fs"
    using blog_fields by blast
  have ok: "snd (zparse c [] (ZObject Strip fs) (JObj kvs)) = Some out"
    using assms fs(1) by (simp add: safe_parse_Inr)
  obtain okvs where o: "out = JObj okvs"
    and feat: "snd (zparse c [PKey (js ''isFeatured'')] (ZDefault (JBool False) ZBoolean)
                 (get_prop kvs (js ''isFeatured''))) = Some (get_prop okvs (js ''isFeatured''))"
    using zparse_object_field_out [OF ok fs(2,3), unfolded append_Nil] by blast
  obtain okvs' where o': "out = JObj okvs'"
    and tags: "snd (zparse c [PKey (js ''tags'')] (ZDefault (JArr []) (ZArray (ZString [])))
                 (get_prop kvs (js ''tags''))) = Some (get_prop okvs' (js ''tags''))"
    using zparse_object_field_out [OF ok fs(2,4), unfolded append_Nil] by blast
  from o o' have "okvs' = okvs" by simp
  then show ?thesis using o zparse_default_false_out [OF feat] zparse_default_string_array_out [OF tags] by blast
qed

lemma blog_defaults_witness:
  "safe_parse (\<lparr>local_tza = 0, legacy_parse = (\<lambda>_. None), resolve_image = (\<lambda>_. None)\<rparr>) blog_schema
     (JObj [(js ''title'', JStr (js ''Post'')), (js ''publishDate'', JStr (js ''2024-03-01'')), (js ''isFeatured'', JBool True)]) =
   Inr (JObj [(js ''title'', JStr (js ''Post'')), (js ''publishDate'', JDate (Some 1709251200000)), (js ''isFeatured'', JBool True), (js ''tags'', JArr [])]) \<and>
   (\<exists>okvs. JObj [(js ''title'', JStr (js ''Post'')), (js ''publishDate'', JDate (Some 1709251200000)), (js ''isFeatured'', JBool True), (js ''tags'', JArr [])] = JObj okvs \<and>
      get_prop okvs (js ''isFeatured'') = JBool True \<and> get_prop okvs (js ''tags'') = JArr [])"
proof -
  have v: "safe_parse (\<lparr>local_tza = 0, legacy_parse = (\<lambda>_. None), resolve_image = (\<lambda>_. None)\<rparr>) blog_schema
     (JObj [(js ''title'', JStr (js ''Post'')), (js ''publishDate'', JStr (js ''2024-03-01'')), (js ''isFeatured'', JBool True)]) =
   Inr (JObj [(js ''title'', JStr (js ''Post'')), (js ''publishDate'', JDate (Some 1709251200000)), (js ''isFeatured'', JBool True), (js ''tags'', JArr [])])"
    by (simp add: schema_defs zod_simps iso_parse_defs date_simps)
  show ?thesis using v blog_defaults [OF v] by simp
qed

text \<open>
  C5: In every collection, a validated entry whose \<open>seo\<close> object has no \<open>pageType\<close>
  gets \<open>pageType = 'website'\<close>.
\<close>

theorem page_type_default:
  assumes "safe_parse c (collection_schema col) (JObj kvs) = Inr out"
    and "get_prop kvs (js ''seo'') = JObj skvs" and "\<not> has_prop skvs (js ''pageType'')"
  shows "\<exists>okvs sokvs. out = JObj okvs \<and> get_prop okvs (js ''seo'') = JObj sokvs \<and>
           get_prop sokvs (js ''pageType'') = JStr (js ''website'')"
proof -
  have ok: "snd (zparse c [] (collection_schema col) (JObj kvs)) = Some out"
    using assms(1) by (simp add: safe_parse_Inr)
  show ?thesis
    using seo_field_out [OF ok assms(2) blog_seo_def, of "js ''pageType''"] assms(3) by fastforce
qed

lemma page_type_default_witness:
  "safe_parse (\<lparr>local_tza = 0, legacy_parse = (\<lambda>_. None), resolve_image = (\<lambda>_. None)\<rparr>) (collection_schema Pages) (JObj [(js ''title'', JStr (js ''About'')), (js ''seo'', JObj [])]) =
     Inr (JObj [(js ''title'', JStr (js ''About'')), (js ''seo'', JObj [(js ''pageType'', JStr (js ''website''))])]) \<and>
   get_prop [(js ''title'', JStr (js ''About'')), (js ''seo'', JObj [])] (js ''seo'') = JObj [] \<and> \<not> has_prop [] (js ''pageType'') \<and>
   (\<exists>okvs sokvs. JObj [(js ''title'', JStr (js ''About'')), (js ''seo'', JObj [(js ''pageType'', JStr (js ''website''))])] = JObj okvs \<and>
      get_prop okvs (js ''seo'') = JObj sokvs \<and> get_prop sokvs (js ''pageType'') = JStr (js ''website''))"
proof -
  have v: "safe_parse (\<lparr>local_tza = 0, legacy_parse = (\<lambda>_. None), resolve_image = (\<lambda>_. None)\<rparr>) (collection_schema Pages) (JObj [(js ''title'', JStr (js ''About'')), (js ''seo'', JObj [])]) =
     Inr (JObj [(js ''title'', JStr (js ''About'')), (js ''seo'', JObj [(js ''pageType'', JStr (js ''website''))])])"
    by (simp add: schema_defs zod_simps)
  show ?thesis
    using v page_type_default [OF v, of "[]"] by simp
qed

text \<open>
  C6: In every collection, an \<open>seo.pageType\<close> that is a string other than
  \<open>'website'\<close> and \<open>'article'\<close> fails validation with an \<open>invalid_enum_value\<close>
  issue at \<open>seo.pageType\<close> listing the two options.
\<close>

theorem page_type_unlisted:
  assumes "get_prop kvs (js ''seo'') = JObj skvs" and "get_prop skvs (js ''pageType'') = JStr x"
    and "x \<notin> {js ''website'', js ''article''}"
  shows "\<exists>is. safe_parse c (collection_schema col) (JObj kvs) = Inl is \<and>
           \<lparr>code = Invalid_enum_value [js ''website'', js ''article''] x,
             path = [PKey (js ''seo''), PKey (js ''pageType'')]\<rparr> \<in> set is"
proof -
  let ?i = "\<lparr>code = Invalid_enum_value [js ''website'', js ''article''] x,
             path = [PKey (js ''seo''), PKey (js ''pageType'')]\<rparr>"
  have "?i \<in> set (fst (zparse c [PKey (js ''seo''), PKey (js ''pageType'')]
            (ZDefault (JStr (js ''website'')) (ZEnum [js ''website'', js ''article'']))
            (get_prop skvs (js ''pageType''))))"
    using assms(2,3) by auto
  then have "?i \<in> set (fst (zparse c [PKey (js ''seo'')] blog_seo (JObj skvs)))"
    using seo_field_issue [OF blog_seo_def, of "js ''pageType''" _ ?i "[]" c skvs] by simp
  then have i: "?i \<in> set (fst (zparse c [] (collection_schema col) (JObj kvs)))"
    using seo_issue [OF assms(1), of ?i] by simp
  then have "fst (zparse c [] (collection_schema col) (JObj kvs)) \<noteq> []" by auto
  with i show ?thesis using safe_parse_Inl by blast
qed

lemma page_type_unlisted_witness:
  "get_prop [(js ''seo'', JObj [(js ''pageType'', JStr (js ''blogpost''))])] (js ''seo'') = JObj [(js ''pageType'', JStr (js ''blogpost''))] \<and>
   get_prop [(js ''pageType'', JStr (js ''blogpost''))] (js ''pageType'') = JStr (js ''blogpost'') \<and>
   js ''blogpost'' \<notin> {js ''website'', js ''article''} \<and>
   (\<exists>is. safe_parse (\<lparr>local_tza = 0, legacy_parse = (\<lambda>_. None), resolve_image = (\<lambda>_. None)\<rparr>) (collection_schema Projects) (JObj [(js ''seo'', JObj [(js ''pageType'', JStr (js ''blogpost''))])]) = Inl is \<and>
      \<lparr>code = Invalid_enum_value [js ''website'', js ''article''] (js ''blogpost''),
        path = [PKey (js ''seo''), PKey (js ''pageType'')]\<rparr> \<in> set is)"
  using page_type_unlisted [of "[(js ''seo'', JObj [(js ''pageType'', JStr (js ''blogpost''))])]" "[(js ''pageType'', JStr (js ''blogpost''))]"
      "js ''blogpost''" "\<lparr>local_tza = 0, legacy_parse = (\<lambda>_. None), resolve_image = (\<lambda>_. None)\<rparr>" Projects]
  by simp

subsection \<open>Dates\<close>

text \<open>
  C7: In the collections that have a \<open>publishDate\<close> (blog and projects), a
  validated entry whose front matter says \<open>publishDate: "2024-03-01"\<close> has the date
  2024-03-01T00:00:00Z (time value 1709251200000) as its \<open>publishDate\<close>, whatever the
  time zone of the build: a date-only string is read as UTC.
\<close>

theorem publish_date_iso:
  assumes "col \<noteq> Pages" and "get_prop kvs (js ''publishDate'') = JStr (js ''2024-03-01'')"
    and "safe_parse c (collection_schema col) (JObj kvs) = Inr out"
  shows "\<exists>okvs. out = JObj okvs \<and> get_prop okvs (js ''publishDate'') = JDate (Some 1709251200000)"
proof -
  have "date_value tza fb (JStr (js ''2024-03-01'')) = Some 1709251200000" for tza fb
    by (simp add: iso_parse_defs date_simps)
  then show ?thesis using date_field_value [OF assms(1,3)] assms(2) by simp
qed

lemma publish_date_iso_witness:
  "Blog \<noteq> Pages \<and>
   get_prop [(js ''title'', JStr (js ''Post'')), (js ''publishDate'', JStr (js ''2024-03-01''))] (js ''publishDate'') = JStr (js ''2024-03-01'') \<and>
   safe_parse (\<lparr>local_tza = -18000000, legacy_parse = (\<lambda>_. None), resolve_image = (\<lambda>_. None)\<rparr>) (collection_schema Blog)
     (JObj [(js ''title'', JStr (js ''Post'')), (js ''publishDate'', JStr (js ''2024-03-01''))]) =
   Inr (JObj [(js ''title'', JStr (js ''Post'')), (js ''publishDate'', JDate (Some 1709251200000)),
              (js ''isFeatured'', JBool False), (js ''tags'', JArr [])]) \<and>
   (\<exists>okvs. JObj [(js ''title'', JStr (js ''Post'')), (js ''publishDate'', JDate (Some 1709251200000)),
              (js ''isFeatured'', JBool False), (js ''tags'', JArr [])] = JObj okvs \<and>
      get_prop okvs (js ''publishDate'') = JDate (Some 1709251200000))"
proof -
  have v: "safe_parse (\<lparr>local_tza = -18000000, legacy_parse = (\<lambda>_. None), resolve_image = (\<lambda>_. None)\<rparr>) (collection_schema Blog)
     (JObj [(js ''title'', JStr (js ''Post'')), (js ''publishDate'', JStr (js ''2024-03-01''))]) =
   Inr (JObj [(js ''title'', JStr (js ''Post'')), (js ''publishDate'', JDate (Some 1709251200000)),
              (js ''isFeatured'', JBool False), (js ''tags'', JArr [])])"
    by (simp add: schema_defs zod_simps iso_parse_defs date_simps)
  show ?thesis using v publish_date_iso [OF _ _ v] by simp
qed

text \<open>
  C8: A \<open>publishDate\<close> written as a date-time without an offset is local time, unlike a
  date-only one: in blog and projects, a validated entry with
  \<open>publishDate: "2024-03-01T10:00:00"\<close> has the time value of 2024-03-01T10:00:00Z
  shifted by the build's local offset, so two builds in different time zones date the
  same entry differently.
\<close>

theorem publish_date_local_time:
  assumes "col \<noteq> Pages" and "get_prop kvs (js ''publishDate'') = JStr (js ''2024-03-01T10:00:00'')"
    and "safe_parse c (collection_schema col) (JObj kvs) = Inr out"
  shows "\<exists>okvs. out = JObj okvs \<and> get_prop okvs (js ''publishDate'') = JDate (Some (1709287200000 - local_tza c))"
proof -
  obtain okvs t where o: "out = JObj okvs"
    and t: "date_value (local_tza c) (legacy_parse c) (JStr (js ''2024-03-01T10:00:00'')) = Some t"
    and g: "get_prop okvs (js ''publishDate'') = JDate (Some t)"
    using date_field_out [OF assms(1,3)] assms(2) by auto
  have "date_value tza fb (JStr (js ''2024-03-01T10:00:00'')) = time_clip (1709287200000 - tza)" for tza fb
    by (simp add: iso_parse_defs date_simps)
  with t have "t = 1709287200000 - local_tza c" by (simp add: time_clip_def split: if_splits)
  with o g show ?thesis by simp
qed

lemma publish_date_local_time_witness:
  "Blog \<noteq> Pages \<and>
   get_prop [(js ''title'', JStr (js ''Post'')), (js ''publishDate'', JStr (js ''2024-03-01T10:00:00''))] (js ''publishDate'') =
     JStr (js ''2024-03-01T10:00:00'') \<and>
   safe_parse (\<lparr>local_tza = -18000000, legacy_parse = (\<lambda>_. None), resolve_image = (\<lambda>_. None)\<rparr>) (collection_schema Blog)
     (JObj [(js ''title'', JStr (js ''Post'')), (js ''publishDate'', JStr (js ''2024-03-01T10:00:00''))]) =
   Inr (JObj [(js ''title'', JStr (js ''Post'')), (js ''publishDate'', JDate (Some 1709305200000)),
              (js ''isFeatured'', JBool False), (js ''tags'', JArr [])]) \<and>
   (\<exists>okvs. JObj [(js ''title'', JStr (js ''Post'')), (js ''publishDate'', JDate (Some 1709305200000)),
              (js ''isFeatured'', JBool False), (js ''tags'', JArr [])] = JObj okvs \<and>
      get_prop okvs (js ''publishDate'') = JDate (Some (1709287200000 - local_tza (\<lparr>local_tza = -18000000, legacy_parse = (\<lambda>_. None), resolve_image = (\<lambda>_. None)\<rparr>))))"
proof -
  have v: "safe_parse (\<lparr>local_tza = -18000000, legacy_parse = (\<lambda>_. None), resolve_image = (\<lambda>_. None)\<rparr>) (collection_schema Blog)
     (JObj [(js ''title'', JStr (js ''Post'')), (js ''publishDate'', JStr (js ''2024-03-01T10:00:00''))]) =
   Inr (JObj [(js ''title'', JStr (js ''Post'')), (js ''publishDate'', JDate (Some 1709305200000)),
              (js ''isFeatured'', JBool False), (js ''tags'', JArr [])])"
    by (simp add: schema_defs zod_simps iso_parse_defs date_simps)
  show ?thesis using v publish_date_local_time [OF _ _ v] by simp
qed

text \<open>
  C9: In blog and projects, front matter without \<open>publishDate\<close> fails validation, and
  the issue is \<open>invalid_date\<close> at \<open>publishDate\<close> (coercion turns the absent value
  into \<open>new Date(undefined)\<close>), not a "Required" issue.
\<close>

theorem publish_date_missing:
  assumes "col \<noteq> Pages" and "\<not> has_prop kvs (js ''publishDate'')"
  shows "\<exists>is. safe_parse c (collection_schema col) (JObj kvs) = Inl is \<and>
           \<lparr>code = Invalid_date, path = [PKey (js ''publishDate'')]\<rparr> \<in> set is"
  using date_field_issue [OF assms(1)] assms(2) by simp

lemma publish_date_missing_witness:
  "Projects \<noteq> Pages \<and> \<not> has_prop [(js ''title'', JStr (js ''Widget''))] (js ''publishDate'') \<and>
   (\<exists>is. safe_parse (\<lparr>local_tza = 0, legacy_parse = (\<lambda>_. None), resolve_image = (\<lambda>_. None)\<rparr>) (collection_schema Projects)
          (JObj [(js ''title'', JStr (js ''Widget''))]) = Inl is \<and>
        \<lparr>code = Invalid_date, path = [PKey (js ''publishDate'')]\<rparr> \<in> set is)"
  using publish_date_missing [of Projects "[(js ''title'', JStr (js ''Widget''))]" "\<lparr>local_tza = 0, legacy_parse = (\<lambda>_. None), resolve_image = (\<lambda>_. None)\<rparr>"] by simp

text \<open>
  C10: \<open>publishDate: null\<close> (an empty YAML value) is accepted as the epoch:
  \<open>new Date(null)\<close> is 1970-01-01T00:00:00Z, so a blog post with a string title, a null
  \<open>publishDate\<close> and none of the other declared fields validates, in every build
  context, to that title, the epoch and the two defaults.
\<close>

theorem publish_date_null:
  assumes "get_prop kvs (js ''title'') = JStr t" and "get_prop kvs (js ''publishDate'') = JNull"
    and "\<forall>k \<in> {js ''excerpt'', js ''updatedDate'', js ''isFeatured'', js ''tags'', js ''seo''}. \<not> has_prop kvs k"
  shows "safe_parse c blog_schema (JObj kvs) =
           Inr (JObj [(js ''title'', JStr t), (js ''publishDate'', JDate (Some 0)),
                      (js ''isFeatured'', JBool False), (js ''tags'', JArr [])])"
proof -
  have h: "has_prop kvs (js ''title'')" "has_prop kvs (js ''publishDate'')"
    using assms(1,2) by (auto intro: get_prop_defined)
  have "zparse c [] blog_schema (JObj kvs) =
        zparse c [] blog_schema (JObj [(js ''title'', JStr t), (js ''publishDate'', JNull)])"
    unfolding blog_schema_def by (rule zparse_strip_local) (use assms h in auto)
  then show ?thesis by (simp add: safe_parse_def schema_defs zod_simps date_simps)
qed

lemma publish_date_null_witness:
  "get_prop [(js ''title'', JStr (js ''Post'')), (js ''publishDate'', JNull), (js ''draft'', JBool True)] (js ''title'') = JStr (js ''Post'') \<and>
   get_prop [(js ''title'', JStr (js ''Post'')), (js ''publishDate'', JNull), (js ''draft'', JBool True)] (js ''publishDate'') = JNull \<and>
   \<not> has_prop [(js ''title'', JStr (js ''Post'')), (js ''publishDate'', JNull), (js ''draft'', JBool True)] (js ''excerpt'') \<and> \<not> has_prop [(js ''title'', JStr (js ''Post'')), (js ''publishDate'', JNull), (js ''draft'', JBool True)] (js ''updatedDate'') \<and>
   \<not> has_prop [(js ''title'', JStr (js ''Post'')), (js ''publishDate'', JNull), (js ''draft'', JBool True)] (js ''isFeatured'') \<and> \<not> has_prop [(js ''title'', JStr (js ''Post'')), (js ''publishDate'', JNull), (js ''draft'', JBool True)] (js ''tags'') \<and> \<not> has_prop [(js ''title'', JStr (js ''Post'')), (js ''publishDate'', JNull), (js ''draft'', JBool True)] (js ''seo'') \<and>
   safe_parse (\<lparr>local_tza = 0, legacy_parse = (\<lambda>_. None), resolve_image = (\<lambda>_. None)\<rparr>) blog_schema (JObj [(js ''title'', JStr (js ''Post'')), (js ''publishDate'', JNull), (js ''draft'', JBool True)]) =
   Inr (JObj [(js ''title'', JStr (js ''Post'')), (js ''publishDate'', JDate (Some 0)),
              (js ''isFeatured'', JBool False), (js ''tags'', JArr [])])"
  using publish_date_null [of "[(js ''title'', JStr (js ''Post'')), (js ''publishDate'', JNull), (js ''draft'', JBool True)]" "js ''Post''" "\<lparr>local_tza = 0, legacy_parse = (\<lambda>_. None), resolve_image = (\<lambda>_. None)\<rparr>"]
  by simp


subsection \<open>Titles, undeclared keys and discovery\<close>

text \<open>
  C11: \<open>title\<close> has no constraint beyond being a string: in every collection, a string
  title, the empty string included, never causes an issue at \<open>title\<close> or below it.
\<close>

theorem title_unconstrained:
  assumes "get_prop kvs (js ''title'') = JStr s" and "path i = PKey (js ''title'') # q"
  shows "i \<notin> set (fst (zparse c [] (collection_schema col) (JObj kvs)))"
proof -
  obtain fs where fs: "collection_schema col = ZObject Strip fs" "distinct (map fst fs)"
      "(js ''title'', ZString []) \<in> set fs"
    using collection_schema_shape by blast
  show ?thesis
    using object_issue_at' [OF fs(2,3), of i "[]" q c Strip kvs] fs(1) assms by simp
qed

lemma title_unconstrained_witness:
  "get_prop [(js ''title'', JStr [])] (js ''title'') = JStr [] \<and>
   path \<lparr>code = Too_small 1, path = [PKey (js ''title'')]\<rparr> = PKey (js ''title'') # [] \<and>
   \<lparr>code = Too_small 1, path = [PKey (js ''title'')]\<rparr>
     \<notin> set (fst (zparse (\<lparr>local_tza = 0, legacy_parse = (\<lambda>_. None), resolve_image = (\<lambda>_. None)\<rparr>) [] (collection_schema Pages) (JObj [(js ''title'', JStr [])])))"
  using title_unconstrained [of "[(js ''title'', JStr [])]" "[]" "\<lparr>code = Too_small 1, path = [PKey (js ''title'')]\<rparr>" "[]"
      "\<lparr>local_tza = 0, legacy_parse = (\<lambda>_. None), resolve_image = (\<lambda>_. None)\<rparr>" Pages]
  by simp

text \<open>
  C12: Keys the schema does not declare are dropped silently: in every collection,
  adding to the front matter keys its schema does not name changes neither the outcome
  nor the issues nor the validated entry.
\<close>

theorem undeclared_keys_stripped:
  assumes "\<forall>k \<in> fst ` set extra. k \<notin> set (shape_keys (collection_schema col))"
  shows "safe_parse c (collection_schema col) (JObj (kvs @ extra)) = safe_parse c (collection_schema col) (JObj kvs)"
proof -
  obtain fs where fs: "collection_schema col = ZObject Strip fs"
    using collection_schema_shape by blast
  have "\<forall>k \<in> set (map fst fs). \<not> has_prop extra k"
    using assms fs by (force simp: has_prop_def)
  then have "zparse c [] (ZObject Strip fs) (JObj (kvs @ extra)) = zparse c [] (ZObject Strip fs) (JObj kvs)"
    by (intro zparse_strip_local) (simp add: get_prop_append_left has_prop_append)
  then show ?thesis by (simp add: safe_parse_def fs)
qed

lemma undeclared_keys_stripped_witness:
  "js ''draft'' \<notin> set (shape_keys (collection_schema Pages)) \<and>
   safe_parse (\<lparr>local_tza = 0, legacy_parse = (\<lambda>_. None), resolve_image = (\<lambda>_. None)\<rparr>) (collection_schema Pages)
     (JObj ([(js ''title'', JStr (js ''About''))] @ [(js ''draft'', JBool True)])) =
   safe_parse (\<lparr>local_tza = 0, legacy_parse = (\<lambda>_. None), resolve_image = (\<lambda>_. None)\<rparr>) (collection_schema Pages) (JObj [(js ''title'', JStr (js ''About''))])"
  using undeclared_keys_stripped [of "[(js ''draft'', JBool True)]" Pages "\<lparr>local_tza = 0, legacy_parse = (\<lambda>_. None), resolve_image = (\<lambda>_. None)\<rparr>" "[(js ''title'', JStr (js ''About''))]"]
  by (simp add: pages_schema_def)


text \<open>
  C13: No file belongs to two collections: the loaders' base directories are disjoint,
  so a path that one loader discovers is discovered by no other.
\<close>

theorem discovered_unique:
  assumes "discovered col1 segs" and "discovered col2 segs"
  shows "col1 = col2"
  using assms by (cases col1; cases col2)
    (auto simp: discovered_def blog_loader_def pages_loader_def projects_loader_def)

lemma discovered_unique_witness:
  "discovered Blog [js ''src'', js ''content'', js ''blog'', js ''2024'', js ''post.mdx''] \<and> Blog = Blog"
proof -
  have d: "discovered Blog [js ''src'', js ''content'', js ''blog'', js ''2024'', js ''post.mdx'']"
    by (simp add: discovered_def blog_loader_def md_file_name_def visible_segment_def suffix_to_prefix)
  show ?thesis using d discovered_unique [OF d d] by simp
qed

text \<open>
  C14: Optional fields without a default stay absent: a projects entry that validates
  without \<open>description\<close> (or without \<open>seo\<close>) in its front matter has no such key in the
  validated entry; nothing fills it in.
\<close>

theorem projects_optional_absent:
  assumes "safe_parse c projects_schema (JObj kvs) = Inr (JObj okvs)"
    and "k \<in> {js ''description'', js ''seo''}" and "\<not> has_prop kvs k"
  shows "\<not> has_prop okvs k"
proof -
  obtain fs where fs: "projects_schema = ZObject Strip fs" "distinct (map fst fs)"
      "(js ''description'', ZOptional (ZString [])) \<in> set fs" "(js ''seo'', projects_seo) \<in> set fs"
    by (simp add: projects_schema_def)
  have ok: "snd (zparse c [] (ZObject Strip fs) (JObj kvs)) = Some (JObj okvs)"
    using assms(1) fs(1) by (simp add: safe_parse_Inr)
  from assms(2) obtain s where "(k, s) \<in> set fs" and "snd (zparse c [PKey k] s JUndefined) = Some JUndefined"
    using fs(3,4) by (auto simp: projects_seo_def)
  then show ?thesis using zparse_object_absent [OF ok fs(2)] assms(3) by simp
qed

lemma projects_optional_absent_witness:
  "safe_parse (\<lparr>local_tza = 0, legacy_parse = (\<lambda>_. None), resolve_image = (\<lambda>_. None)\<rparr>) projects_schema
     (JObj [(js ''title'', JStr (js ''Widget'')), (js ''publishDate'', JStr (js ''2023-01-01''))]) =
   Inr (JObj [(js ''title'', JStr (js ''Widget'')), (js ''publishDate'', JDate (Some 1672531200000)),
              (js ''isFeatured'', JBool False)]) \<and>
   js ''description'' \<in> {js ''description'', js ''seo''} \<and>
   \<not> has_prop [(js ''title'', JStr (js ''Widget'')), (js ''publishDate'', JStr (js ''2023-01-01''))] (js ''description'') \<and>
   \<not> has_prop [(js ''title'', JStr (js ''Widget'')), (js ''publishDate'', JDate (Some 1672531200000)),
              (js ''isFeatured'', JBool False)] (js ''description'')"
proof -
  have v: "safe_parse (\<lparr>local_tza = 0, legacy_parse = (\<lambda>_. None), resolve_image = (\<lambda>_. None)\<rparr>) projects_schema
     (JObj [(js ''title'', JStr (js ''Widget'')), (js ''publishDate'', JStr (js ''2023-01-01''))]) =
   Inr (JObj [(js ''title'', JStr (js ''Widget'')), (js ''publishDate'', JDate (Some 1672531200000)),
              (js ''isFeatured'', JBool False)])"
    by (simp add: schema_defs zod_simps iso_parse_defs date_simps)
  show ?thesis using v projects_optional_absent [OF v, of "js ''description''"] by simp
qed

subsection \<open>Images\<close>



subsection \<open>The contract of each collection\<close>

text \<open>
  C16: Validation implements the contract of each collection: in every collection and
  every build context, \<open>safeParse\<close> of a front-matter object succeeds exactly when the
  front matter satisfies \<open>front_matter_ok\<close>: the required fields, the type of every
  optional field that is present, the coercible dates, the \<open>seo\<close> length bounds, the
  \<open>pageType\<close> enumeration and resolvable images.
\<close>

theorem collection_contract:
  "(\<exists>out. safe_parse c (collection_schema col) (JObj kvs) = Inr out) \<longleftrightarrow> front_matter_ok col c kvs"
  by (cases col) (simp_all add: safe_parse_accepts accept_iff schema_defs contract_defs cong: jval.case_cong)

lemma collection_contract_witness:
  "\<exists>out. safe_parse (\<lparr>local_tza = 0, legacy_parse = (\<lambda>_. None), resolve_image = (\<lambda>_. None)\<rparr>) (collection_schema Projects)
     (JObj [(js ''title'', JStr (js ''Widget'')), (js ''publishDate'', JStr (js ''2023-01-01''))]) = Inr out"
proof -
  have f: "front_matter_ok Projects (\<lparr>local_tza = 0, legacy_parse = (\<lambda>_. None), resolve_image = (\<lambda>_. None)\<rparr>)
     [(js ''title'', JStr (js ''Widget'')), (js ''publishDate'', JStr (js ''2023-01-01''))]"
    by (simp add: contract_defs iso_parse_defs date_simps)
  show ?thesis using collection_contract [THEN iffD2, OF f] .
qed


text \<open>
  C17: Every date-only \<open>publishDate\<close> \<open>YYYY-MM-DD\<close> with a month from 01 to 12 and a
  day from 01 to 31 is accepted, in blog and projects and in every build context, and a
  validated entry holds UTC midnight of \<open>MakeDay(YYYY, MM - 1, DD)\<close>, whatever the
  build's time zone and engine; a day past the end of its month (\<open>2024-02-30\<close>) is
  not rejected but counts on into the next month.
\<close>

theorem publish_date_date_only:
  assumes "col \<noteq> Pages" and "length ys = 4" and "length ms = 2" and "length ds = 2"
    and "list_all is_digit (ys @ ms @ ds)"
    and "1 \<le> digits_value ms" and "digits_value ms \<le> 12" and "1 \<le> digits_value ds" and "digits_value ds \<le> 31"
    and "get_prop kvs (js ''publishDate'') = JStr (ys @ js ''-'' @ ms @ js ''-'' @ ds)"
  shows "(\<forall>i \<in> set (fst (zparse c [] (collection_schema col) (JObj kvs))). path i \<noteq> [PKey (js ''publishDate'')]) \<and>
         (\<forall>out. safe_parse c (collection_schema col) (JObj kvs) = Inr out \<longrightarrow>
            (\<exists>okvs. out = JObj okvs \<and>
               get_prop okvs (js ''publishDate'') =
                 JDate (Some (make_date (make_day (digits_value ys) (digits_value ms - 1) (digits_value ds)) 0))))"
proof -
  obtain fs where fs: "collection_schema col = ZObject Strip fs" "distinct (map fst fs)"
      "(js ''publishDate'', ZCoerceDate) \<in> set fs"
    using dated_fields [OF assms(1)] by blast
  have dv: "date_value (local_tza c) (legacy_parse c) (get_prop kvs (js ''publishDate'')) =
            Some (make_date (make_day (digits_value ys) (digits_value ms - 1) (digits_value ds)) 0)"
    using date_value_date_only [OF assms(2-9)] assms(10) by simp
  have "\<forall>i \<in> set (fst (zparse c [] (collection_schema col) (JObj kvs))). path i \<noteq> [PKey (js ''publishDate'')]"
  proof (intro ballI notI)
    fix i assume i: "i \<in> set (fst (zparse c [] (collection_schema col) (JObj kvs)))"
      and p: "path i = [PKey (js ''publishDate'')]"
    from i p fs show False
      using object_issue_at' [OF fs(2,3), of i "[]" "[]" c Strip kvs] dv by simp
  qed
  moreover have "\<forall>out. safe_parse c (collection_schema col) (JObj kvs) = Inr out \<longrightarrow>
            (\<exists>okvs. out = JObj okvs \<and>
               get_prop okvs (js ''publishDate'') =
                 JDate (Some (make_date (make_day (digits_value ys) (digits_value ms - 1) (digits_value ds)) 0)))"
    using date_field_value [OF assms(1) _ dv] by blast
  ultimately show ?thesis ..
qed

lemma publish_date_date_only_witness:
  "Blog \<noteq> Pages \<and> length (js ''2024'') = 4 \<and> length (js ''02'') = 2 \<and> length (js ''30'') = 2 \<and>
   list_all is_digit (js ''2024'' @ js ''02'' @ js ''30'') \<and>
   1 \<le> digits_value (js ''02'') \<and> digits_value (js ''02'') \<le> 12 \<and>
   1 \<le> digits_value (js ''30'') \<and> digits_value (js ''30'') \<le> 31 \<and>
   get_prop [(js ''title'', JStr (js ''Post'')), (js ''publishDate'', JStr (js ''2024-02-30''))] (js ''publishDate'') = JStr (js ''2024'' @ js ''-'' @ js ''02'' @ js ''-'' @ js ''30'') \<and>
   safe_parse (\<lparr>local_tza = 0, legacy_parse = (\<lambda>_. None), resolve_image = (\<lambda>_. None)\<rparr>) (collection_schema Blog) (JObj [(js ''title'', JStr (js ''Post'')), (js ''publishDate'', JStr (js ''2024-02-30''))]) = Inr (JObj [(js ''title'', JStr (js ''Post'')), (js ''publishDate'', JDate (Some 1709251200000)), (js ''isFeatured'', JBool False), (js ''tags'', JArr [])]) \<and>
   (\<exists>okvs. JObj [(js ''title'', JStr (js ''Post'')), (js ''publishDate'', JDate (Some 1709251200000)), (js ''isFeatured'', JBool False), (js ''tags'', JArr [])] = JObj okvs \<and>
      get_prop okvs (js ''publishDate'') =
        JDate (Some (make_date (make_day (digits_value (js ''2024'')) (digits_value (js ''02'') - 1)
                                         (digits_value (js ''30''))) 0)))"
proof -
  have v: "safe_parse (\<lparr>local_tza = 0, legacy_parse = (\<lambda>_. None), resolve_image = (\<lambda>_. None)\<rparr>) (collection_schema Blog) (JObj [(js ''title'', JStr (js ''Post'')), (js ''publishDate'', JStr (js ''2024-02-30''))]) = Inr (JObj [(js ''title'', JStr (js ''Post'')), (js ''publishDate'', JDate (Some 1709251200000)), (js ''isFeatured'', JBool False), (js ''tags'', JArr [])])"
    by (simp add: schema_defs zod_simps iso_parse_defs date_simps)
  have h: "Blog \<noteq> Pages \<and> length (js ''2024'') = 4 \<and> length (js ''02'') = 2 \<and> length (js ''30'') = 2 \<and>
     list_all is_digit (js ''2024'' @ js ''02'' @ js ''30'') \<and>
     1 \<le> digits_value (js ''02'') \<and> digits_value (js ''02'') \<le> 12 \<and>
     1 \<le> digits_value (js ''30'') \<and> digits_value (js ''30'') \<le> 31 \<and>
     get_prop [(js ''title'', JStr (js ''Post'')), (js ''publishDate'', JStr (js ''2024-02-30''))] (js ''publishDate'') = JStr (js ''2024'' @ js ''-'' @ js ''02'' @ js ''-'' @ js ''30'')"
    by (simp add: is_digit_def digits_value_def)
  show ?thesis
    using h v publish_date_date_only [of Blog "js ''2024''" "js ''02''" "js ''30''" "[(js ''title'', JStr (js ''Post'')), (js ''publishDate'', JStr (js ''2024-02-30''))]" "\<lparr>local_tza = 0, legacy_parse = (\<lambda>_. None), resolve_image = (\<lambda>_. None)\<rparr>"]
    by blast
qed

end
