(* ===== verification/SiteConfig.thy ===== *)
theory SiteConfig
  imports JsValue
begin

text \<open>
  \<open>src/data/site-config.ts\<close>: the exported types \<open>Image\<close>, \<open>Link\<close>, \<open>Hero\<close>,
  \<open>Subscribe\<close> and \<open>SiteConfig\<close>, and the constant \<open>siteConfig\<close>. The module does
  nothing at run time but build one object; what it promises is what the TypeScript
  compiler checks when that object literal is declared \<open>const siteConfig: SiteConfig\<close>.
  So the types are data (\<open>tstype\<close>), the constant is the JavaScript object the literal
  evaluates to (keys in source order), and \<open>ts_conforms\<close> is TypeScript's
  assignability check of an object literal against an object type under
  \<open>strictNullChecks\<close>: required properties present with a value of their type,
  optional ones absent or of their type, and no property the type does not declare
  (the excess-property check on fresh literals, applied at every nesting level).
\<close>

subsection \<open>The types\<close>

text \<open>A property of an object type is its key, whether it is optional (\<open>?:\<close>) and its type.\<close>

datatype tstype =
    TString
  | TNumber
  | TBoolean
  | TArray tstype
  | TObject "(jsstr \<times> bool \<times> tstype) list"

definition image_type :: tstype where
  "image_type = TObject
     [(js ''src'', False, TString), (js ''alt'', True, TString), (js ''caption'', True, TString)]"

definition link_type :: tstype where
  "link_type = TObject
     [(js ''text'', False, TString), (js ''href'', False, TString), (js ''active'', True, TBoolean)]"

definition hero_type :: tstype where
  "hero_type = TObject
     [(js ''title'', True, TString), (js ''text'', True, TString), (js ''image'', True, image_type),
      (js ''actions'', True, TArray link_type)]"

definition subscribe_type :: tstype where
  "subscribe_type = TObject
     [(js ''title'', True, TString), (js ''text'', True, TString), (js ''formUrl'', False, TString)]"

definition site_config_type :: tstype where
  "site_config_type = TObject
     [(js ''website'', False, TString), (js ''logo'', True, image_type),
      (js ''title'', False, TString), (js ''subtitle'', True, TString),
      (js ''description'', False, TString), (js ''image'', True, image_type),
      (js ''headerNavLinks'', True, TArray link_type), (js ''footerNavLinks'', True, TArray link_type),
      (js ''socialLinks'', True, TArray link_type), (js ''hero'', True, hero_type),
      (js ''subscribe'', True, subscribe_type), (js ''postsPerPage'', True, TNumber),
      (js ''projectsPerPage'', True, TNumber)]"

subsection \<open>TypeScript's check of an object literal\<close>

fun ts_conforms :: "tstype \<Rightarrow> jval \<Rightarrow> bool" where
  "ts_conforms TString v = (case v of JStr _ \<Rightarrow> True | _ \<Rightarrow> False)"
| "ts_conforms TNumber v = (case v of JNum _ \<Rightarrow> True | _ \<Rightarrow> False)"
| "ts_conforms TBoolean v = (case v of JBool _ \<Rightarrow> True | _ \<Rightarrow> False)"
| "ts_conforms (TArray t) v = (case v of JArr xs \<Rightarrow> list_all (ts_conforms t) xs | _ \<Rightarrow> False)"
| "ts_conforms (TObject ps) v =
     (case v of
        JObj kvs \<Rightarrow>
          list_all (\<lambda>(k, opt, t).
              if has_prop kvs k \<and> get_prop kvs k \<noteq> JUndefined then ts_conforms t (get_prop kvs k) else opt) ps
          \<and> list_all (\<lambda>(k, _). k \<in> set (map fst ps)) kvs
      | _ \<Rightarrow> False)"

text \<open>One property of an object type checked against an object's properties.\<close>

definition prop_conforms :: "(jsstr \<times> jval) list \<Rightarrow> jsstr \<times> bool \<times> tstype \<Rightarrow> bool" where
  "prop_conforms kvs p = (case p of (k, opt, t) \<Rightarrow>
     if has_prop kvs k \<and> get_prop kvs k \<noteq> JUndefined then ts_conforms t (get_prop kvs k) else opt)"

subsection \<open>The value \<open>siteConfig\<close>\<close>









subsection \<open>Object types property by property\<close>

lemma ts_conforms_object:
  "ts_conforms (TObject ps) (JObj kvs) \<longleftrightarrow>
   list_all (prop_conforms kvs) ps \<and> list_all (\<lambda>(k, _). k \<in> set (map fst ps)) kvs"
  unfolding prop_conforms_def [abs_def] by simp

lemma prop_conforms_absent: "\<not> has_prop kvs k \<Longrightarrow> prop_conforms kvs (k, opt, t) = opt"
  by (simp add: prop_conforms_def)

lemma prop_conforms_present:
  "get_prop kvs k \<noteq> JUndefined \<Longrightarrow> prop_conforms kvs (k, opt, t) \<longleftrightarrow> ts_conforms t (get_prop kvs k)"
  by (auto simp: prop_conforms_def dest: get_prop_defined)

lemma prop_conforms_delete:
  "prop_conforms (filter (\<lambda>(k', _). k' \<noteq> k) kvs) (k'', opt, t) =
   (if k'' = k then opt else prop_conforms kvs (k'', opt, t))"
  by (simp add: prop_conforms_def get_prop_delete has_prop_delete)

lemma ts_conforms_number: "ts_conforms TNumber v \<longleftrightarrow> (\<exists>n. v = JNum n)"
  by (cases v) simp_all

text \<open>Leaving out a property the type declares optional keeps an object assignable.\<close>

lemma conforms_delete_optional:
  assumes "ts_conforms (TObject ps) (JObj kvs)" and "\<forall>(k', opt, t) \<in> set ps. k' = k \<longrightarrow> opt"
  shows "ts_conforms (TObject ps) (JObj (filter (\<lambda>(k', _). k' \<noteq> k) kvs))"
  using assms by (fastforce simp del: ts_conforms.simps simp: ts_conforms_object list_all_iff prop_conforms_delete)

subsection \<open>Properties of the configuration\<close>


text \<open>C19: every property of \<open>SiteConfig\<close> other than \<open>website\<close>, \<open>title\<close> and
  \<open>description\<close> may be left out: deleting it from an object literal the type accepts
  leaves a literal the type accepts.\<close>

theorem site_config_optional_omittable:
  assumes "ts_conforms site_config_type (JObj kvs)"
    and "k \<notin> {js ''website'', js ''title'', js ''description''}"
  shows "ts_conforms site_config_type (JObj (filter (\<lambda>(k', _). k' \<noteq> k) kvs))"
proof -
  obtain ps where ps: "site_config_type = TObject ps" by (simp add: site_config_type_def)
  have opt: "\<forall>(k', opt, t) \<in> set ps. k' = k \<longrightarrow> opt"
    using ps assms(2) unfolding site_config_type_def by auto
  show ?thesis
    using conforms_delete_optional [OF assms(1) [unfolded ps] opt] unfolding ps .
qed

theorem site_config_optional_omittable_witness:
  "ts_conforms site_config_type
     (JObj (filter (\<lambda>(k', _). k' \<noteq> js ''subtitle'')
       [(js ''website'', JStr (js ''w'')), (js ''title'', JStr (js ''t'')),
        (js ''description'', JStr (js ''d'')), (js ''subtitle'', JStr (js ''s''))]))"
  using site_config_optional_omittable [of "[(js ''website'', JStr (js ''w'')), (js ''title'', JStr (js ''t'')),
        (js ''description'', JStr (js ''d'')), (js ''subtitle'', JStr (js ''s''))]" "js ''subtitle''"]
  by (simp add: site_config_type_def)

text \<open>C20: the page sizes \<open>postsPerPage\<close> and \<open>projectsPerPage\<close> are numbers: an
  object literal that sets either to anything else (a string \<open>'6'\<close>, say) is rejected.\<close>

theorem site_config_page_sizes_numeric:
  assumes "k \<in> {js ''postsPerPage'', js ''projectsPerPage''}"
    and "get_prop kvs k \<noteq> JUndefined" and "\<forall>n. get_prop kvs k \<noteq> JNum n"
  shows "\<not> ts_conforms site_config_type (JObj kvs)"
proof -
  have "\<not> prop_conforms kvs (k, True, TNumber)"
    using assms(2,3) by (simp del: ts_conforms.simps add: prop_conforms_present ts_conforms_number)
  then show ?thesis
    using assms(1) unfolding site_config_type_def
    by (auto simp del: ts_conforms.simps simp: ts_conforms_object)
qed

theorem site_config_page_sizes_numeric_witness:
  "\<not> ts_conforms site_config_type
     (JObj [(js ''website'', JStr (js ''w'')), (js ''title'', JStr (js ''t'')),
            (js ''description'', JStr (js ''d'')), (js ''postsPerPage'', JStr (js ''6''))])"
  using site_config_page_sizes_numeric [of "js ''postsPerPage''"
      "[(js ''website'', JStr (js ''w'')), (js ''title'', JStr (js ''t'')),
        (js ''description'', JStr (js ''d'')), (js ''postsPerPage'', JStr (js ''6''))]"]
  by simp

text \<open>C21: an object without one of the required properties \<open>website\<close>, \<open>title\<close>,
  \<open>description\<close> is rejected at type \<open>SiteConfig\<close>.\<close>

theorem site_config_required:
  assumes "k \<in> {js ''website'', js ''title'', js ''description''}" and "\<not> has_prop kvs k"
  shows "\<not> ts_conforms site_config_type (JObj kvs)"
  using assms unfolding site_config_type_def
  by (auto simp del: ts_conforms.simps simp: ts_conforms_object prop_conforms_absent)

theorem site_config_required_witness:
  "\<not> ts_conforms site_config_type (JObj [(js ''website'', JStr (js ''w'')), (js ''description'', JStr (js ''d''))])"
  using site_config_required [of "js ''title''" "[(js ''website'', JStr (js ''w'')), (js ''description'', JStr (js ''d''))]"]
  by simp

end
