(* ===== verification/Spec2Isabelle.thy ===== *)
theory Spec2Isabelle
  imports Content SiteConfig
begin

text \<open>
  \<^bold>\<open>A verification development of the blog's content schemas and site configuration.\<close>

  The repository has two modules, both declarative. \<open>src/src/content.config.ts\<close>
  registers three content collections (\<open>blog\<close>, \<open>pages\<close>, \<open>projects\<close>). Each
  collection has a glob loader over \<open>src/content/<name>\<close> and a zod schema that the
  content layer runs on each file's front matter. \<open>src/src/data/site-config.ts\<close> declares
  the types \<open>Image\<close>, \<open>Link\<close>, \<open>Hero\<close>, \<open>Subscribe\<close> and \<open>SiteConfig\<close>, and
  exports one constant \<open>siteConfig\<close> of type \<open>SiteConfig\<close>, which the rendering layer
  reads. The two modules do not call each other. What they do lies in what they call:
  zod's validation, ECMAScript's \<open>new Date\<close> behind \<open>z.coerce.date()\<close>, and
  TypeScript's check of an object literal. The development models those, from their
  specifications, as far as the two modules use them.

  \<^bold>\<open>Theories.\<close>
  \<^item> \<open>Prelude\<close>: JS strings as lists of UTF-16 code units (\<open>jsstr\<close>), the named
    collections \<open>zod_simps\<close>, \<open>date_simps\<close> and \<open>accept_iff\<close>, and lemmas on
    association lists that the components share.
  \<^item> \<open>JsValue\<close>: the JavaScript values front matter parses to (\<open>jval\<close>), with
    property access \<open>get_prop\<close> (an absent key reads as \<open>undefined\<close>), \<open>in\<close>
    (\<open>has_prop\<close>) and their laws.
  \<^item> \<open>EsDate\<close>: \<open>new Date(v)\<close> as \<open>date_value\<close>, with MakeDay, MakeTime,
    MakeDate, TimeClip, the Date Time String Format parser \<open>parse_iso\<close>, and ToString
    (including \<open>Date.prototype.toString\<close>, used when an array is coerced).
    \<^item> \<open>date_parse\<close> reads a string in the format by the standard's rules.
    \<^item> For any other string, \<open>Date.parse\<close> leaves the result to the engine. So the
      engine's fallback parser (V8's legacy parser in Node) is a parameter, and no
      theorem depends on what it does.
    \<^item> \<open>date_value_date_only\<close> shows that every \<open>YYYY-MM-DD\<close> string gives UTC
      midnight of MakeDay.
  \<^item> \<open>Zod\<close>: the combinators the config uses, as the datatype \<open>zschema\<close>. They are
    \<open>z.string()\<close> with \<open>min\<close>/\<open>max\<close>, \<open>z.boolean()\<close>, \<open>z.coerce.date()\<close>,
    \<open>z.array\<close>, \<open>z.object\<close> with its unknown-keys policy (strip, strict,
    passthrough), \<open>.optional()\<close>, \<open>.default()\<close>, \<open>z.enum\<close> and Astro's
    \<open>image()\<close>.
    \<^item> \<open>zparse\<close> is the interpreter: it returns the issue list and either the
      output or zod's INVALID. \<open>safe_parse\<close> models \<open>safeParse\<close>.
    \<^item> The inductive \<open>zaccepts\<close> is the declarative reading of a schema, and
      \<open>zparse_refines_zaccepts\<close> shows the interpreter implements it. The
      \<open>accept_iff\<close> lemmas say, combinator by combinator, which values a schema
      accepts.
    \<^item> \<open>zparse_strip_local\<close> shows that a strip object reads only the keys it
      declares.
  \<^item> \<open>Content\<close>: the three schemas and the three written-out copies of the \<open>seo\<close>
    sub-schema, each a literal transcription of its lines. It also holds the registry
    \<open>collection_schema\<close>, the loaders \<open>collection_loader\<close>, and file discovery
    (\<open>md_glob\<close>, \<open>discovered\<close>) for the pattern \<open>**/*.{md,mdx}\<close>. Finally it
    holds \<open>front_matter_ok\<close>, each collection's contract as the specification's data
    model tabulates it.
  \<^item> \<open>SiteConfig\<close>: the five types as data (\<open>tstype\<close>), the constant as the object
    its literal evaluates to (\<open>siteConfig\<close>), and TypeScript's assignability check of
    an object literal (\<open>ts_conforms\<close>). The check covers required and optional
    properties and, under \<open>strictNullChecks\<close>, the excess-property check.

  \<^bold>\<open>What is shown.\<close> Every claim holds in every build context: any local time
  zone, any engine fallback parser, any image resolver.
  \<^item> Required and bounded fields:
    \<^item> a missing title gives zod's "Required" issue (C1);
    \<^item> the \<open>seo\<close> title and description bounds are reported exactly at their
      limits (C2, C3);
    \<^item> a string title is never constrained further (C11).
  \<^item> Defaults and enumerations:
    \<^item> defaults fill only absent fields (C4, C5);
    \<^item> an unlisted \<open>pageType\<close> is rejected (C6);
    \<^item> an optional field without a default stays absent (C14).
  \<^item> Dates:
    \<^item> a date-only string is UTC (C7, and every \<open>YYYY-MM-DD\<close> in C17, days past
      the month's end rolling over);
    \<^item> a date-time without offset is local time (C8);
    \<^item> a missing date gives invalid_date (C9);
    \<^item> \<open>null\<close> is accepted as the epoch (C10).
  \<^item> Undeclared keys change nothing (C12).
  \<^item> Discovery finds each file in at most one collection (C13).
  \<^item> An unresolvable \<open>seo.image\<close> is reported at its path (C15).
  \<^item> \<open>safeParse\<close> succeeds exactly on front matter satisfying \<open>front_matter_ok\<close>
    (C16).
  \<^item> For the configuration:
    \<^item> the constant type-checks (C18);
    \<^item> every property other than \<open>website\<close>, \<open>title\<close> and \<open>description\<close> may
      be omitted (C19), and those three may not (C21);
    \<^item> page sizes must be numbers (C20).

  \<^bold>\<open>Bounds and fuel.\<close> Every function of the model recurses structurally on
  schemas, values or lists, so there is no fuel and every function is total. The local
  time zone is a fixed offset in milliseconds (\<open>local_tza\<close>), since daylight-saving
  rules are not modelled. Numbers are integers. The limit \<open>8.64e15\<close> ms of TimeClip is
  kept exactly. Four-digit years stay within it (\<open>make_day_date_only\<close>).

  \<^bold>\<open>Not modelled.\<close>
  \<^item> The YAML parser that turns front matter into values: the model starts from the
    parsed value.
  \<^item> The filesystem walk: \<open>discovered\<close> filters a given list of paths.
  \<^item> Astro's rendering and build driver, and the pages that read \<open>siteConfig\<close>.
  \<^item> What the engine makes of date strings outside the ISO format. It is a parameter.
  \<^item> The order in which JavaScript enumerates integer-like keys; undeclared keys keep
    their input order.
  \<^item> Fractional, infinite and NaN numbers.
\<close>

end
